theory Spec2Isabelle
  imports Main
begin

section \<open>JavaScript values\<close>

text \<open>
  The accumulated state (\<open>RfqState\<close>), the execution metadata and the event payloads are
  plain JavaScript objects that are stored as JSON. A value is one of the JSON shapes or
  \<open>undefined\<close>. An object is given by its own properties in insertion order; a key
  that occurs twice is read at its last binding, as \<open>JSON.parse\<close> does, so every
  association list denotes an object. Numbers are integers here: no operation of the engine
  computes with them, only their truthiness is read. The reordering of integer-like keys
  that JavaScript applies to the own keys of an object is not modelled.
\<close>

datatype jsval =
    JUndefined
  | JNull
  | JBool bool
  | JNum int
  | JStr string
  | JArr "jsval list"
  | JObj "(string \<times> jsval) list"

type_synonym obj = "(string \<times> jsval) list"

text \<open>\<open>ToBoolean\<close>: what \<open>v ? a : b\<close> and \<open>v || d\<close> test.\<close>

fun truthy :: "jsval \<Rightarrow> bool" where
  "truthy JUndefined = False"
| "truthy JNull = False"
| "truthy (JBool b) = b"
| "truthy (JNum n) = (n \<noteq> 0)"
| "truthy (JStr s) = (s \<noteq> [])"
| "truthy (JArr vs) = True"
| "truthy (JObj kvs) = True"

text \<open>\<open>k in ob\<close>, the property read \<open>ob[k]\<close> and the property definition \<open>ob[k] = v\<close>.\<close>

definition has_prop :: "obj \<Rightarrow> string \<Rightarrow> bool" where
  "has_prop ob k = (k \<in> set (map fst ob))"

definition get_prop :: "obj \<Rightarrow> string \<Rightarrow> jsval" where
  "get_prop ob k = (case map_of (rev ob) k of None \<Rightarrow> JUndefined | Some v \<Rightarrow> v)"

definition set_prop :: "string \<Rightarrow> jsval \<Rightarrow> obj \<Rightarrow> obj" where
  "set_prop k v ob =
     (if has_prop ob k
      then map (\<lambda>(k', v'). if k' = k then (k', v) else (k', v')) ob
      else ob @ [(k, v)])"

text \<open>Decimal rendering of a non-negative integer (\<open>String(n)\<close>, template literals).\<close>

definition digit :: "nat \<Rightarrow> char" where
  "digit d = ''0123456789'' ! d"

function toString :: "nat \<Rightarrow> string" where
  "toString n = (if n < 10 then [digit n] else toString (n div 10) @ [digit (n mod 10)])"
  by pat_completeness auto
termination
  by (relation "measure (\<lambda>n. n)") auto

declare toString.simps [simp del]

text \<open>
  The own enumerable properties that an object spread \<open>{...v}\<close> copies: those of an
  object, the indexed elements of an array, the indexed characters of a string, and none
  for \<open>undefined\<close>, \<open>null\<close>, booleans and numbers.
\<close>

fun index_props :: "nat \<Rightarrow> jsval list \<Rightarrow> obj" where
  "index_props i [] = []"
| "index_props i (v # vs) = (toString i, v) # index_props (Suc i) vs"

fun own_props :: "jsval \<Rightarrow> obj" where
  "own_props (JObj kvs) = kvs"
| "own_props (JArr vs) = index_props 0 vs"
| "own_props (JStr s) = index_props 0 (map (\<lambda>c. JStr [c]) s)"
| "own_props JUndefined = []"
| "own_props JNull = []"
| "own_props (JBool b) = []"
| "own_props (JNum n) = []"

text \<open>\<open>spread acc v\<close> is the object literal \<open>{...acc, ...v}\<close> once \<open>acc\<close> is built.\<close>

definition spread :: "obj \<Rightarrow> jsval \<Rightarrow> obj" where
  "spread acc v = fold (\<lambda>(k, x). set_prop k x) (own_props v) acc"

section \<open>StateService.mergeState\<close>

text \<open>
  The object literal of \<open>mergeState\<close>: the two spreads, then the four nested fields, each
  defined explicitly (so each is an own property of the result, with value
  \<open>undefined\<close> when neither side has it).
\<close>

definition mergeState :: "obj \<Rightarrow> obj \<Rightarrow> obj" where
  "mergeState currentState updates =
     set_prop ''quote''
       (if truthy (get_prop updates ''quote'')
        then JObj (spread (spread [] (get_prop currentState ''quote''))
                     (get_prop updates ''quote''))
        else get_prop currentState ''quote'')
     (set_prop ''mtoData''
       (if truthy (get_prop updates ''mtoData'')
        then JObj (spread (spread [] (get_prop currentState ''mtoData''))
                     (get_prop updates ''mtoData''))
        else get_prop currentState ''mtoData'')
     (set_prop ''duplicateCheckResult''
       (if truthy (get_prop updates ''duplicateCheckResult'')
        then JObj (spread (spread [] (get_prop currentState ''duplicateCheckResult''))
                     (get_prop updates ''duplicateCheckResult''))
        else get_prop currentState ''duplicateCheckResult'')
     (set_prop ''parsedData''
       (if truthy (get_prop updates ''parsedData'')
        then JObj (spread (spread [] (get_prop currentState ''parsedData''))
                     (get_prop updates ''parsedData''))
        else get_prop currentState ''parsedData'')
     (spread (spread [] (JObj currentState)) (JObj updates)))))"

text \<open>The nested fields that \<open>mergeState\<close> merges instead of replacing.\<close>

definition curated_fields :: "string list" where
  "curated_fields = [''parsedData'', ''duplicateCheckResult'', ''mtoData'', ''quote'']"

text \<open>
  The own properties that \<open>JSON.stringify\<close> writes for an object, and so the ones a JSON
  column keeps: those whose value is not \<open>undefined\<close>.
\<close>

definition json_props :: "obj \<Rightarrow> obj" where
  "json_props ob = filter (\<lambda>(k, v). v \<noteq> JUndefined) ob"

section \<open>Persistent data\<close>

text \<open>
  The rows of the tables \<open>executions\<close>, \<open>agent_tasks\<close>, \<open>events\<close> and
  \<open>rfq_snapshots\<close>. Field names carry the table's initial because several tables share
  column names. A \<open>Date\<close> is the number of milliseconds since the epoch. A JSON column
  holds the value handed to the client as it is: that serialisation drops the properties
  whose value is \<open>undefined\<close> is not modelled, and a property read cannot tell such a
  property from an absent one.
\<close>

type_synonym Date = nat

datatype ExecutionStatus = PENDING | PROCESSING | AWAITING_HUMAN | COMPLETED | FAILED | CANCELLED

datatype AgentTaskStatus =
  TASK_PENDING | TASK_PROCESSING | TASK_COMPLETED | TASK_FAILED | TASK_AWAITING_HUMAN | TASK_SKIPPED

datatype SnapshotType = INPUT | OUTPUT | HUMAN_UPDATE

record execution =
  e_id :: string
  e_emailId :: string
  e_externalRef :: "string option"
  e_status :: ExecutionStatus
  e_currentAgent :: "string option"
  e_metadata :: jsval
  e_createdAt :: Date
  e_updatedAt :: Date
  e_completedAt :: "Date option"

record agentTask =
  t_id :: string
  t_executionId :: string
  t_agentName :: string
  t_attemptNumber :: nat
  t_status :: AgentTaskStatus
  t_inputSnapshotId :: "string option"
  t_outputSnapshotId :: "string option"
  t_errorMessage :: "string option"
  t_durationMs :: "int option"
  t_tokenUsage :: "jsval option"
  t_costUsd :: "int option"
  t_startedAt :: "Date option"
  t_completedAt :: "Date option"
  t_createdAt :: Date

record event =
  ev_id :: string
  ev_executionId :: string
  ev_agentTaskId :: "string option"
  ev_eventType :: string
  ev_eventData :: jsval
  ev_createdAt :: Date

record rfqSnapshot =
  s_id :: string
  s_executionId :: string
  s_agentName :: string
  s_snapshotType :: SnapshotType
  s_data :: obj
  s_createdAt :: Date

text \<open>A job of a stage queue: its key, its name, its payload and its retry count.\<close>

record job =
  j_id :: string
  j_name :: string
  j_executionId :: string
  j_attemptsMade :: nat

text \<open>
  The error classes of \<open>shared/utils/errors.ts\<close> that the engine raises, the plain
  \<open>Error\<close> of the queue service, and the request errors of the database client, given
  by their code: \<open>P2002\<close> (unique constraint) and \<open>P2025\<close> (record not found), which
  the error handler knows, \<open>P2003\<close> (foreign key) and \<open>P2020\<close> (value out of range).
\<close>

datatype error =
    NotFoundError string string
  | ValidationError string
  | ConflictError string
  | Error string
  | PrismaError string

fun statusCode :: "error \<Rightarrow> nat" where
  "statusCode (NotFoundError r i) = 404"
| "statusCode (ValidationError m) = 400"
| "statusCode (ConflictError m) = 409"
| "statusCode (Error m) = 500"
| "statusCode (PrismaError c) = 500"

fun code :: "error \<Rightarrow> string" where
  "code (NotFoundError r i) = ''NOT_FOUND''"
| "code (ValidationError m) = ''VALIDATION_ERROR''"
| "code (ConflictError m) = ''CONFLICT''"
| "code (Error m) = ''INTERNAL_ERROR''"
| "code (PrismaError c) = c"

fun status_name :: "ExecutionStatus \<Rightarrow> string" where
  "status_name PENDING = ''PENDING''"
| "status_name PROCESSING = ''PROCESSING''"
| "status_name AWAITING_HUMAN = ''AWAITING_HUMAN''"
| "status_name COMPLETED = ''COMPLETED''"
| "status_name FAILED = ''FAILED''"
| "status_name CANCELLED = ''CANCELLED''"

text \<open>An outcome that is an error of the given code.\<close>

definition raises :: "(error + 'a) \<Rightarrow> string \<Rightarrow> bool" where
  "raises outcome c = (case outcome of Inl e \<Rightarrow> code e = c | Inr x \<Rightarrow> False)"

section \<open>The world and its effects\<close>

text \<open>
  Everything the engine reads and writes: the four tables (rows in insertion order), the
  stage queues, and the environment. The environment answers the calls the code makes to
  the outside: \<open>clock\<close> gives the successive readings of the wall clock and \<open>uuids\<close>
  the successive generated identifiers, each with a count of the readings made so far;
  \<open>tie_choice\<close> is the row the database puts first among rows that compare equal under
  an \<open>ORDER BY\<close>, which SQL leaves open. Nothing constrains the clock to increase or the
  identifiers to be new.
\<close>

record world =
  executions :: "execution list"
  agentTasks :: "agentTask list"
  events :: "event list"
  rfqSnapshots :: "rfqSnapshot list"
  queues :: "(string \<times> job list) list"
  clock :: "nat \<Rightarrow> Date"
  clock_reads :: nat
  uuids :: "nat \<Rightarrow> string"
  uuid_reads :: nat
  tie_choice :: "rfqSnapshot list \<Rightarrow> nat"

text \<open>
  An effectful call returns its outcome, an error raised (\<open>Inl\<close>) or a value, together
  with the world it leaves: what was written before a \<open>throw\<close> stays written.
\<close>

type_synonym 'a io = "world \<Rightarrow> (error + 'a) \<times> world"

definition io_return :: "'a \<Rightarrow> 'a io" where
  "io_return x w = (Inr x, w)"

definition io_throw :: "error \<Rightarrow> 'a io" where
  "io_throw e w = (Inl e, w)"

definition io_bind :: "'a io \<Rightarrow> ('a \<Rightarrow> 'b io) \<Rightarrow> 'b io" where
  "io_bind m f w = (case m w of (Inl e, w') \<Rightarrow> (Inl e, w') | (Inr x, w') \<Rightarrow> f x w')"

text \<open>\<open>new Date()\<close> and \<open>Date.now()\<close>; \<open>uuidv4()\<close> and the \<open>uuid()\<close> column default.\<close>

definition now :: "Date io" where
  "now w = (Inr (clock w (clock_reads w)), w\<lparr>clock_reads := Suc (clock_reads w)\<rparr>)"

definition uuidv4 :: "string io" where
  "uuidv4 w = (Inr (uuids w (uuid_reads w)), w\<lparr>uuid_reads := Suc (uuid_reads w)\<rparr>)"

section \<open>The database client\<close>

text \<open>
  The calls of the generated client that the engine uses. A \<open>create\<close> appends a row and
  fails with \<open>P2002\<close> when the primary key is taken; an \<open>update\<close> of a missing row fails
  with \<open>P2025\<close> and otherwise also stamps \<open>updatedAt\<close>. A Snapshot is created only
  for an Execution that exists (the foreign key of \<open>rfq_snapshots\<close>, checked after the
  primary key), else the create fails with \<open>P2003\<close>. The other foreign keys are not
  checked: the engine writes those rows only with keys that it has just read from, or written
  to, the database.
\<close>

definition execution_findUnique :: "string \<Rightarrow> world \<Rightarrow> execution option" where
  "execution_findUnique i w = find (\<lambda>e. e_id e = i) (executions w)"

definition execution_update :: "string \<Rightarrow> (execution \<Rightarrow> execution) \<Rightarrow> execution io" where
  "execution_update i f w =
     (case execution_findUnique i w of
        None \<Rightarrow> io_throw (PrismaError ''P2025'') w
      | Some e \<Rightarrow>
          io_bind now (\<lambda>t w'.
            (Inr ((f e)\<lparr>e_updatedAt := t\<rparr>),
             w'\<lparr>executions :=
                  map (\<lambda>x. if e_id x = i then (f x)\<lparr>e_updatedAt := t\<rparr> else x)
                    (executions w')\<rparr>)) w)"

definition execution_create ::
  "string \<Rightarrow> string option \<Rightarrow> jsval \<Rightarrow> ExecutionStatus \<Rightarrow> string option \<Rightarrow> execution io" where
  "execution_create emailId externalRef metadata status currentAgent =
     io_bind uuidv4 (\<lambda>i. io_bind now (\<lambda>t w.
       if i \<in> set (map e_id (executions w)) then io_throw (PrismaError ''P2002'') w
       else
         let e = \<lparr>e_id = i, e_emailId = emailId, e_externalRef = externalRef,
                  e_status = status, e_currentAgent = currentAgent, e_metadata = metadata,
                  e_createdAt = t, e_updatedAt = t, e_completedAt = None\<rparr>
         in (Inr e, w\<lparr>executions := executions w @ [e]\<rparr>)))"

definition rfqSnapshot_create ::
  "string \<Rightarrow> string \<Rightarrow> SnapshotType \<Rightarrow> obj \<Rightarrow> rfqSnapshot io" where
  "rfqSnapshot_create executionId agentName snapshotType data =
     io_bind uuidv4 (\<lambda>i. io_bind now (\<lambda>t w.
       if i \<in> set (map s_id (rfqSnapshots w)) then io_throw (PrismaError ''P2002'') w
       else if executionId \<notin> set (map e_id (executions w))
       then io_throw (PrismaError ''P2003'') w
       else
         let s = \<lparr>s_id = i, s_executionId = executionId, s_agentName = agentName,
                  s_snapshotType = snapshotType, s_data = data, s_createdAt = t\<rparr>
         in (Inr s, w\<lparr>rfqSnapshots := rfqSnapshots w @ [s]\<rparr>)))"

definition event_create :: "event \<Rightarrow> event io" where
  "event_create ev w =
     (if ev_id ev \<in> set (map ev_id (events w)) then io_throw (PrismaError ''P2002'') w
      else (Inr ev, w\<lparr>events := events w @ [ev]\<rparr>))"

definition event_createMany :: "event list \<Rightarrow> nat io" where
  "event_createMany evs w =
     (if distinct (map ev_id evs) \<and> set (map ev_id evs) \<inter> set (map ev_id (events w)) = {}
      then (Inr (length evs), w\<lparr>events := events w @ evs\<rparr>)
      else io_throw (PrismaError ''P2002'') w)"

text \<open>
  What the columns of \<open>agent_tasks\<close> can hold: \<open>attempt_number\<close> and
  \<open>duration_ms\<close> are 32-bit integers, \<open>cost_usd\<close> is \<open>DECIMAL(10, 6)\<close>. A cost
  is held in millionths of a dollar, the scale of its column. A value outside the range
  makes the write fail with \<open>P2020\<close>, and nothing is written.
\<close>

definition int4 :: "int \<Rightarrow> bool" where
  "int4 n = (- 2147483648 \<le> n \<and> n \<le> 2147483647)"

definition decimal_10_6 :: "int \<Rightarrow> bool" where
  "decimal_10_6 c = (- 10000000000 < c \<and> c < 10000000000)"

definition agentTask_columns :: "agentTask \<Rightarrow> bool" where
  "agentTask_columns a =
     (int4 (int (t_attemptNumber a))
      \<and> (case t_durationMs a of None \<Rightarrow> True | Some d \<Rightarrow> int4 d)
      \<and> (case t_costUsd a of None \<Rightarrow> True | Some c \<Rightarrow> decimal_10_6 c))"

definition agentTask_create ::
  "string \<Rightarrow> string \<Rightarrow> nat \<Rightarrow> AgentTaskStatus \<Rightarrow> Date \<Rightarrow> string option \<Rightarrow> agentTask io" where
  "agentTask_create executionId agentName attemptNumber status startedAt inputSnapshotId =
     io_bind uuidv4 (\<lambda>i. io_bind now (\<lambda>t w.
       let a = \<lparr>t_id = i, t_executionId = executionId, t_agentName = agentName,
                t_attemptNumber = attemptNumber, t_status = status,
                t_inputSnapshotId = inputSnapshotId, t_outputSnapshotId = None,
                t_errorMessage = None, t_durationMs = None, t_tokenUsage = None,
                t_costUsd = None, t_startedAt = Some startedAt, t_completedAt = None,
                t_createdAt = t\<rparr>
       in if \<not> agentTask_columns a then io_throw (PrismaError ''P2020'') w
          else if i \<in> set (map t_id (agentTasks w)) then io_throw (PrismaError ''P2002'') w
          else (Inr a, w\<lparr>agentTasks := agentTasks w @ [a]\<rparr>)))"

definition agentTask_update :: "string \<Rightarrow> (agentTask \<Rightarrow> agentTask) \<Rightarrow> unit io" where
  "agentTask_update i f w =
     (if i \<notin> set (map t_id (agentTasks w)) then io_throw (PrismaError ''P2025'') w
      else if \<not> list_all agentTask_columns
                   (map f (filter (\<lambda>a. t_id a = i) (agentTasks w)))
      then io_throw (PrismaError ''P2020'') w
      else (Inr (), w\<lparr>agentTasks := map (\<lambda>a. if t_id a = i then f a else a) (agentTasks w)\<rparr>))"

text \<open>
  \<open>findFirst\<close> and \<open>take: 1\<close> under \<open>orderBy: {createdAt: 'desc'}\<close>: a row whose
  \<open>createdAt\<close> is the greatest; among several such rows the one the database chooses.
\<close>

definition maxCreatedAt :: "rfqSnapshot list \<Rightarrow> Date" where
  "maxCreatedAt rows = fold (\<lambda>s m. max (s_createdAt s) m) rows 0"

definition first_by_createdAt_desc :: "world \<Rightarrow> rfqSnapshot list \<Rightarrow> rfqSnapshot option" where
  "first_by_createdAt_desc w rows =
     (if rows = [] then None
      else
        let ties = filter (\<lambda>s. s_createdAt s = maxCreatedAt rows) rows
        in Some (ties ! (tie_choice w ties mod length ties)))"

section \<open>EventService\<close>

definition save :: "event \<Rightarrow> string io" where
  "save ev = io_bind (event_create ev) (\<lambda>created. io_return (ev_id created))"

definition saveMany :: "event list \<Rightarrow> nat io" where
  "saveMany evs = (if length evs = 0 then io_return 0 else event_createMany evs)"

section \<open>StateService\<close>

definition createSnapshot :: "string \<Rightarrow> string \<Rightarrow> SnapshotType \<Rightarrow> obj \<Rightarrow> string io" where
  "createSnapshot executionId agentName snapshotType data =
     io_bind (rfqSnapshot_create executionId agentName snapshotType data)
       (\<lambda>snapshot. io_return (s_id snapshot))"

definition getLatestSnapshot :: "string \<Rightarrow> world \<Rightarrow> obj option" where
  "getLatestSnapshot executionId w =
     (case first_by_createdAt_desc w
             (filter (\<lambda>s. s_executionId s = executionId) (rfqSnapshots w)) of
        None \<Rightarrow> None
      | Some snapshot \<Rightarrow> Some (s_data snapshot))"

section \<open>QueueService\<close>

text \<open>
  One queue per stage, held in a \<open>Map\<close> from the stage name. \<open>initialize\<close> creates the
  queues of the six stages. The queues are those of the queue library, which identifies a
  job by its id: \<open>add\<close> with an id that the queue already holds adds nothing and hands
  back the job of that id. A queue here is the list of the jobs it holds, oldest first.
\<close>

definition AGENT_PIPELINE :: "string list" where
  "AGENT_PIPELINE =
     [''intake'', ''missing-info'', ''duplicate'', ''prioritization'', ''mto'', ''auto-quote'']"

definition initialized_queues :: "(string \<times> job list) list" where
  "initialized_queues = map (\<lambda>agentName. (agentName, [])) AGENT_PIPELINE"

definition queue_add :: "job \<Rightarrow> job list \<Rightarrow> job list" where
  "queue_add j jobs = (if j_id j \<in> set (map j_id jobs) then jobs else jobs @ [j])"

definition jobId :: "string \<Rightarrow> string \<Rightarrow> Date \<Rightarrow> string" where
  "jobId executionId agentName t = executionId @ ''-'' @ agentName @ ''-'' @ toString t"

definition enqueue :: "string \<Rightarrow> string \<Rightarrow> string io" where
  "enqueue agentName executionId w =
     (case map_of (queues w) agentName of
        None \<Rightarrow> io_throw (Error (''Queue not found for agent: '' @ agentName)) w
      | Some queue \<Rightarrow>
          io_bind now (\<lambda>t w'.
            (Inr (jobId executionId agentName t),
             w'\<lparr>queues :=
                  map (\<lambda>(n, jobs).
                         if n = agentName
                         then (n, queue_add \<lparr>j_id = jobId executionId agentName t,
                                             j_name = agentName,
                                             j_executionId = executionId,
                                             j_attemptsMade = 0\<rparr> jobs)
                         else (n, jobs))
                    (queues w')\<rparr>)) w)"

section \<open>ExecutionService\<close>

text \<open>
  \<open>v || {}\<close>, and \<open>Object.keys\<close>: the own keys, each once, in the order in which
  they first occur.
\<close>

definition or_empty :: "jsval \<Rightarrow> jsval" where
  "or_empty v = (if truthy v then v else JObj [])"

fun object_keys :: "obj \<Rightarrow> string list" where
  "object_keys [] = []"
| "object_keys ((k, v) # kvs) = k # filter (\<lambda>j. j \<noteq> k) (object_keys kvs)"

definition updateStatus :: "string \<Rightarrow> ExecutionStatus \<Rightarrow> obj option \<Rightarrow> execution io" where
  "updateStatus executionId status metadata =
     io_bind (if status = COMPLETED \<or> status = FAILED \<or> status = CANCELLED
              then io_bind now (\<lambda>t. io_return (Some t))
              else io_return None) (\<lambda>completedAt.
     io_bind (case metadata of
                None \<Rightarrow> io_return None
              | Some m \<Rightarrow> (\<lambda>w.
                  io_return
                    (Some (JObj (spread
                       (spread []
                          (or_empty (case execution_findUnique executionId w of
                                       None \<Rightarrow> JUndefined
                                     | Some current \<Rightarrow> e_metadata current)))
                       (JObj m)))) w)) (\<lambda>merged.
     execution_update executionId
       (\<lambda>e. e\<lparr>e_status := status,
               e_completedAt := (case completedAt of None \<Rightarrow> e_completedAt e | Some t \<Rightarrow> Some t),
               e_metadata := (case merged of None \<Rightarrow> e_metadata e | Some m \<Rightarrow> m)\<rparr>)))"

text \<open>
  \<open>resume\<close>. The target of \<open>options.resumeFromAgent || execution.currentAgent\<close> is the
  current stage also when the given name is the empty string; the column may be null, and
  then no queue is found for it.
\<close>

definition resume :: "string \<Rightarrow> obj option \<Rightarrow> string option \<Rightarrow> unit io" where
  "resume executionId updatedState resumeFromAgent w =
     (case execution_findUnique executionId w of
        None \<Rightarrow> io_throw (NotFoundError ''Execution'' executionId) w
      | Some execution \<Rightarrow>
          if e_status execution \<noteq> AWAITING_HUMAN
          then io_throw (ValidationError
                 (''Execution is not awaiting human input. Current status: ''
                    @ status_name (e_status execution))) w
          else
            io_bind
              (case updatedState of
                 None \<Rightarrow> io_return ()
               | Some upd \<Rightarrow> (\<lambda>w1.
                   let currentState = getLatestSnapshot executionId w1;
                       mergedState =
                         mergeState (case currentState of None \<Rightarrow> [] | Some c \<Rightarrow> c) upd
                   in io_bind (createSnapshot executionId ''human'' HUMAN_UPDATE mergedState)
                        (\<lambda>_.
                      io_bind uuidv4 (\<lambda>i.
                      io_bind now (\<lambda>t.
                      io_bind (save \<lparr>ev_id = i, ev_executionId = executionId,
                                     ev_agentTaskId = None,
                                     ev_eventType = ''HUMAN_INPUT_RECEIVED'',
                                     ev_eventData =
                                       JObj [(''updatedFields'',
                                              JArr (map JStr (object_keys upd)))],
                                     ev_createdAt = t\<rparr>) (\<lambda>_.
                      io_return ())))) w1))
              (\<lambda>_.
                 let targetAgent =
                       (case resumeFromAgent of
                          None \<Rightarrow> e_currentAgent execution
                        | Some a \<Rightarrow> if a \<noteq> [] then Some a else e_currentAgent execution)
                 in io_bind (execution_update executionId
                               (\<lambda>e. e\<lparr>e_status := PROCESSING,
                                       e_currentAgent := targetAgent\<rparr>)) (\<lambda>_.
                    io_bind uuidv4 (\<lambda>i.
                    io_bind now (\<lambda>t.
                    io_bind (save \<lparr>ev_id = i, ev_executionId = executionId,
                                   ev_agentTaskId = None,
                                   ev_eventType = ''EXECUTION_RESUMED'',
                                   ev_eventData =
                                     JObj [(''resumedFrom'',
                                            case targetAgent of
                                              None \<Rightarrow> JNull
                                            | Some a \<Rightarrow> JStr a)],
                                   ev_createdAt = t\<rparr>) (\<lambda>_.
                    io_bind (case targetAgent of
                               None \<Rightarrow> io_throw (Error ''Queue not found for agent: null'')
                             | Some a \<Rightarrow> enqueue a executionId) (\<lambda>_.
                    io_return ())))))) w)"

definition replay :: "string \<Rightarrow> string \<Rightarrow> string io" where
  "replay executionId fromAgent w =
     (case execution_findUnique executionId w of
        None \<Rightarrow> io_throw (NotFoundError ''Execution'' executionId) w
      | Some execution \<Rightarrow>
          let snapshots =
                first_by_createdAt_desc w
                  (filter (\<lambda>s. s_executionId s = executionId \<and> s_agentName s = fromAgent
                                \<and> s_snapshotType s = INPUT) (rfqSnapshots w))
          in
          if fromAgent \<notin> set AGENT_PIPELINE
          then io_throw (ValidationError (''Invalid agent name: '' @ fromAgent)) w
          else
            io_bind (execution_create (e_emailId execution) (e_externalRef execution)
                       (JObj (set_prop ''replayedFromAgent'' (JStr fromAgent)
                               (set_prop ''replayedFrom'' (JStr executionId)
                                 (spread [] (or_empty (e_metadata execution))))))
                       PENDING (Some fromAgent)) (\<lambda>newExecution.
            io_bind (case snapshots of
                       None \<Rightarrow> io_return ()
                     | Some s \<Rightarrow>
                         io_bind (createSnapshot (e_id newExecution) fromAgent INPUT (s_data s))
                           (\<lambda>_. io_return ())) (\<lambda>_.
            io_bind uuidv4 (\<lambda>i.
            io_bind now (\<lambda>t.
            io_bind (save \<lparr>ev_id = i, ev_executionId = e_id newExecution,
                           ev_agentTaskId = None,
                           ev_eventType = ''EXECUTION_CREATED'',
                           ev_eventData =
                             JObj [(''replayedFrom'', JStr executionId),
                                   (''fromAgent'', JStr fromAgent)],
                           ev_createdAt = t\<rparr>) (\<lambda>_.
            io_bind (enqueue fromAgent (e_id newExecution)) (\<lambda>_.
            io_return (e_id newExecution))))))) w)"

definition cancel :: "string \<Rightarrow> unit io" where
  "cancel executionId w =
     (case execution_findUnique executionId w of
        None \<Rightarrow> io_throw (NotFoundError ''Execution'' executionId) w
      | Some execution \<Rightarrow>
          if e_status execution = COMPLETED \<or> e_status execution = CANCELLED
          then io_throw (ValidationError
                 (''Cannot cancel execution with status: ''
                    @ status_name (e_status execution))) w
          else
            io_bind now (\<lambda>completedAt.
            io_bind (execution_update executionId
                       (\<lambda>e. e\<lparr>e_status := CANCELLED, e_completedAt := Some completedAt\<rparr>))
              (\<lambda>_.
            io_bind uuidv4 (\<lambda>i.
            io_bind now (\<lambda>t.
            io_bind (save \<lparr>ev_id = i, ev_executionId = executionId,
                           ev_agentTaskId = None,
                           ev_eventType = ''EXECUTION_CANCELLED'',
                           ev_eventData = JObj [],
                           ev_createdAt = t\<rparr>) (\<lambda>_.
            io_return ()))))) w)"

section \<open>The stage worker\<close>

text \<open>
  The stage executor is outside the engine: \<open>agent\<close> stands for
  \<open>createAgent(agentName).execute\<close>, which returns a result for every context (it turns
  its own exceptions into a \<open>FAIL\<close> result) and does not touch the tables. Of the
  execution's input the context keeps the email's id.
\<close>

datatype NextAction =
    CONTINUE string
  | AWAIT_HUMAN string "string list option"
  | COMPLETE
  | FAIL string
  | SKIP string string

record DomainEvent =
  d_id :: string
  d_eventType :: string
  d_eventData :: jsval
  d_createdAt :: Date

record ResultMetadata =
  m_durationMs :: "int option"
  m_tokenUsage :: "jsval option"
  m_costUsd :: "int option"

record AgentResult =
  r_success :: bool
  r_outputState :: obj
  r_events :: "DomainEvent list"
  r_nextAction :: NextAction
  r_metadata :: "ResultMetadata option"

record AgentContext =
  c_executionId :: string
  c_emailId :: string
  c_currentState :: obj
  c_attempt :: nat

text \<open>The duration and the cost that a stage reports fit the columns of its StageTask.\<close>

definition metadata_columns :: "AgentResult \<Rightarrow> bool" where
  "metadata_columns result =
     (case r_metadata result of
        None \<Rightarrow> True
      | Some m \<Rightarrow>
          (case m_durationMs m of None \<Rightarrow> True | Some d \<Rightarrow> int4 d)
          \<and> (case m_costUsd m of None \<Rightarrow> True | Some c \<Rightarrow> decimal_10_6 c))"

text \<open>Step 10 of the worker, the \<open>switch\<close> on the next action.\<close>

definition handleNextAction :: "string \<Rightarrow> execution \<Rightarrow> NextAction \<Rightarrow> unit io" where
  "handleNextAction executionId execution nextAction =
     (case nextAction of
        CONTINUE nextAgent \<Rightarrow>
          io_bind (execution_update executionId (\<lambda>e. e\<lparr>e_currentAgent := Some nextAgent\<rparr>))
            (\<lambda>_.
          io_bind (enqueue nextAgent executionId) (\<lambda>_. io_return ()))
      | SKIP reason nextAgent \<Rightarrow>
          io_bind (execution_update executionId (\<lambda>e. e\<lparr>e_currentAgent := Some nextAgent\<rparr>))
            (\<lambda>_.
          io_bind (enqueue nextAgent executionId) (\<lambda>_. io_return ()))
      | AWAIT_HUMAN reason requiredFields \<Rightarrow>
          io_bind (execution_update executionId
                     (\<lambda>e. e\<lparr>e_status := AWAITING_HUMAN,
                             e_metadata :=
                               JObj (set_prop ''requiredFields''
                                       (case requiredFields of
                                          None \<Rightarrow> JUndefined
                                        | Some fs \<Rightarrow> JArr (map JStr fs))
                                     (set_prop ''awaitingReason'' (JStr reason)
                                       (spread [] (or_empty (e_metadata execution)))))\<rparr>))
            (\<lambda>_.
          io_bind uuidv4 (\<lambda>i.
          io_bind now (\<lambda>t.
          io_bind (save \<lparr>ev_id = i, ev_executionId = executionId, ev_agentTaskId = None,
                         ev_eventType = ''HUMAN_INTERVENTION_REQUIRED'',
                         ev_eventData =
                           JObj [(''reason'', JStr reason),
                                 (''requiredFields'',
                                  case requiredFields of
                                    None \<Rightarrow> JUndefined
                                  | Some fs \<Rightarrow> JArr (map JStr fs))],
                         ev_createdAt = t\<rparr>) (\<lambda>_.
          io_return ()))))
      | COMPLETE \<Rightarrow>
          io_bind now (\<lambda>completedAt.
          io_bind (execution_update executionId
                     (\<lambda>e. e\<lparr>e_status := COMPLETED, e_completedAt := Some completedAt\<rparr>))
            (\<lambda>_.
          io_bind uuidv4 (\<lambda>i.
          io_bind now (\<lambda>t.
          io_bind (save \<lparr>ev_id = i, ev_executionId = executionId, ev_agentTaskId = None,
                         ev_eventType = ''EXECUTION_COMPLETED'',
                         ev_eventData = JObj [],
                         ev_createdAt = t\<rparr>) (\<lambda>_.
          io_return ())))))
      | FAIL err \<Rightarrow>
          io_bind (execution_update executionId
                     (\<lambda>e. e\<lparr>e_status := FAILED,
                             e_metadata :=
                               JObj (set_prop ''error'' (JStr err)
                                       (spread [] (or_empty (e_metadata execution))))\<rparr>))
            (\<lambda>_.
          io_bind uuidv4 (\<lambda>i.
          io_bind now (\<lambda>t.
          io_bind (save \<lparr>ev_id = i, ev_executionId = executionId, ev_agentTaskId = None,
                         ev_eventType = ''EXECUTION_FAILED'',
                         ev_eventData = JObj [(''error'', JStr err)],
                         ev_createdAt = t\<rparr>) (\<lambda>_.
          io_return ())))))"

text \<open>The processor that \<open>createAgentWorker(agentName)\<close> installs, run on one job.\<close>

definition createAgentWorker ::
  "(AgentContext \<Rightarrow> AgentResult) \<Rightarrow> string \<Rightarrow> job \<Rightarrow> AgentResult io" where
  "createAgentWorker agent agentName job w =
     (let executionId = j_executionId job in
      case execution_findUnique executionId w of
        None \<Rightarrow> io_throw (PrismaError ''P2025'') w
      | Some execution \<Rightarrow>
          let latestSnapshot =
                first_by_createdAt_desc w
                  (filter (\<lambda>s. s_executionId s = executionId) (rfqSnapshots w))
          in
          io_bind (execution_update executionId (\<lambda>e. e\<lparr>e_status := PROCESSING\<rparr>)) (\<lambda>_.
          let currentState = (case latestSnapshot of None \<Rightarrow> [] | Some s \<Rightarrow> s_data s);
              context = \<lparr>c_executionId = executionId, c_emailId = e_emailId execution,
                         c_currentState = currentState,
                         c_attempt = j_attemptsMade job + 1\<rparr>
          in
          io_bind now (\<lambda>startedAt.
          io_bind (agentTask_create executionId agentName (c_attempt context)
                     TASK_PROCESSING startedAt (map_option s_id latestSnapshot))
            (\<lambda>agentTask.
          let result = agent context;
              mergedState = mergeState currentState (r_outputState result)
          in
          io_bind (createSnapshot executionId agentName OUTPUT mergedState)
            (\<lambda>outputSnapshotId.
          io_bind (saveMany
                     (map (\<lambda>e. \<lparr>ev_id = d_id e, ev_executionId = executionId,
                                  ev_agentTaskId = Some (t_id agentTask),
                                  ev_eventType = d_eventType e,
                                  ev_eventData = d_eventData e,
                                  ev_createdAt = d_createdAt e\<rparr>) (r_events result)))
            (\<lambda>_.
          io_bind now (\<lambda>completedAt.
          io_bind (agentTask_update (t_id agentTask)
                     (\<lambda>a. a\<lparr>t_status := (if r_success result then TASK_COMPLETED
                                          else TASK_FAILED),
                             t_completedAt := Some completedAt,
                             t_outputSnapshotId := Some outputSnapshotId,
                             t_durationMs :=
                               (case r_metadata result of
                                  None \<Rightarrow> t_durationMs a
                                | Some m \<Rightarrow> (case m_durationMs m of
                                              None \<Rightarrow> t_durationMs a
                                            | Some d \<Rightarrow> Some d)),
                             t_tokenUsage :=
                               (case r_metadata result of
                                  None \<Rightarrow> t_tokenUsage a
                                | Some m \<Rightarrow> (case m_tokenUsage m of
                                              None \<Rightarrow> t_tokenUsage a
                                            | Some u \<Rightarrow> Some u)),
                             t_costUsd :=
                               (case r_metadata result of
                                  None \<Rightarrow> t_costUsd a
                                | Some m \<Rightarrow> (case m_costUsd m of
                                              None \<Rightarrow> t_costUsd a
                                            | Some c \<Rightarrow> Some c)),
                             t_errorMessage :=
                               (if r_success result then None
                                else (case r_nextAction result of
                                        FAIL err \<Rightarrow> Some err
                                      | _ \<Rightarrow> None))\<rparr>)) (\<lambda>_.
          io_bind (handleNextAction executionId execution (r_nextAction result)) (\<lambda>_.
          io_return result)))))))) w)"

section \<open>Example worlds\<close>

text \<open>
  A small world for the examples: the six queues of \<open>initialize\<close>, a clock that advances
  by one millisecond at every reading, identifiers numbered as they are generated, and a
  database that puts the first stored row first among ties. \<open>frozen_clock_world\<close> is the
  same world within a single millisecond.
\<close>

definition fixture_world :: world where
  "fixture_world =
     \<lparr>executions = [], agentTasks = [], events = [], rfqSnapshots = [],
      queues = initialized_queues,
      clock = (\<lambda>n. 1000 + n), clock_reads = 0,
      uuids = (\<lambda>n. ''u'' @ toString n), uuid_reads = 0,
      tie_choice = (\<lambda>ties. 0)\<rparr>"

definition frozen_clock_world :: world where
  "frozen_clock_world = fixture_world\<lparr>clock := (\<lambda>n. 1000)\<rparr>"

definition fixture_execution :: "string \<Rightarrow> ExecutionStatus \<Rightarrow> execution" where
  "fixture_execution i status =
     \<lparr>e_id = i, e_emailId = ''mail-1'', e_externalRef = None, e_status = status,
      e_currentAgent = Some ''intake'', e_metadata = JObj [],
      e_createdAt = 10, e_updatedAt = 10, e_completedAt = None\<rparr>"

text \<open>
  Two stage executors for the examples, shaped like the results of \<open>BaseAgent.execute\<close>:
  one that succeeds and continues with the next stage, one whose run failed.
\<close>

definition continuing_agent :: "AgentContext \<Rightarrow> AgentResult" where
  "continuing_agent context =
     \<lparr>r_success = True,
      r_outputState = [(''parsedData'', JObj [(''customerName'', JStr ''ACME'')])],
      r_events =
        [\<lparr>d_id = ''a0'', d_eventType = ''AGENT_STARTED'',
          d_eventData = JObj [(''agent'', JStr ''intake'')], d_createdAt = 900\<rparr>,
         \<lparr>d_id = ''a1'', d_eventType = ''AGENT_COMPLETED'',
          d_eventData = JObj [(''agent'', JStr ''intake'')], d_createdAt = 905\<rparr>],
      r_nextAction = CONTINUE ''missing-info'',
      r_metadata = Some \<lparr>m_durationMs = Some 5, m_tokenUsage = None, m_costUsd = None\<rparr>\<rparr>"

definition overlong_agent :: "AgentContext \<Rightarrow> AgentResult" where
  "overlong_agent context =
     \<lparr>r_success = True,
      r_outputState = [(''parsedData'', JObj [(''customerName'', JStr ''ACME'')])],
      r_events =
        [\<lparr>d_id = ''a0'', d_eventType = ''AGENT_STARTED'',
          d_eventData = JObj [(''agent'', JStr ''intake'')], d_createdAt = 900\<rparr>],
      r_nextAction = CONTINUE ''missing-info'',
      r_metadata = Some \<lparr>m_durationMs = Some 2147483648, m_tokenUsage = None,
                          m_costUsd = None\<rparr>\<rparr>"

definition failing_agent :: "AgentContext \<Rightarrow> AgentResult" where
  "failing_agent context =
     \<lparr>r_success = False,
      r_outputState = [],
      r_events =
        [\<lparr>d_id = ''a0'', d_eventType = ''AGENT_STARTED'',
          d_eventData = JObj [(''agent'', JStr ''intake'')], d_createdAt = 900\<rparr>,
         \<lparr>d_id = ''a1'', d_eventType = ''AGENT_FAILED'',
          d_eventData = JObj [(''agent'', JStr ''intake''), (''error'', JStr ''boom'')],
          d_createdAt = 905\<rparr>],
      r_nextAction = FAIL ''boom'',
      r_metadata = Some \<lparr>m_durationMs = Some 5, m_tokenUsage = None, m_costUsd = None\<rparr>\<rparr>"

definition fixture_job :: job where
  "fixture_job =
     \<lparr>j_id = ''e1-intake-900'', j_name = ''intake'', j_executionId = ''e1'',
      j_attemptsMade = 0\<rparr>"

definition fixture_snapshot :: "string \<Rightarrow> string \<Rightarrow> SnapshotType \<Rightarrow> obj \<Rightarrow> Date \<Rightarrow> rfqSnapshot" where
  "fixture_snapshot i agentName snapshotType d t =
     \<lparr>s_id = i, s_executionId = ''e1'', s_agentName = agentName,
      s_snapshotType = snapshotType, s_data = d, s_createdAt = t\<rparr>"

section \<open>Properties of objects\<close>

lemma map_of_retag:
  "map_of (map (\<lambda>(k', v'). if k' = k then (k', v) else (k', v')) xs) =
     (\<lambda>j. if j = k then (if k \<in> set (map fst xs) then Some v else None) else map_of xs j)"
  by (induction xs) (auto simp: fun_eq_iff)

lemma map_of_rev_set_prop:
  "map_of (rev (set_prop k v ob)) = (map_of (rev ob))(k \<mapsto> v)"
proof (cases "has_prop ob k")
  case True
  then have "k \<in> set (map fst (rev ob))"
    by (simp add: has_prop_def)
  then show ?thesis
    using True
    by (simp add: set_prop_def rev_map map_of_retag fun_eq_iff)
next
  case False
  then show ?thesis
    by (simp add: set_prop_def fun_eq_iff)
qed

lemma get_set_prop:
  "get_prop (set_prop k v ob) j = (if j = k then v else get_prop ob j)"
  by (simp add: get_prop_def map_of_rev_set_prop)

lemma has_prop_map_of: "has_prop ob k \<longleftrightarrow> map_of (rev ob) k \<noteq> None"
  by (simp add: has_prop_def map_of_eq_None_iff)

lemma map_of_rev_fold_set_prop:
  "map_of (rev (fold (\<lambda>(k, x). set_prop k x) ps acc)) = map_of (rev acc) ++ map_of (rev ps)"
proof (induction ps arbitrary: acc)
  case Nil
  then show ?case by simp
next
  case (Cons p ps)
  obtain k x where p: "p = (k, x)" by (cases p)
  have "map_of (rev (fold (\<lambda>(k, x). set_prop k x) (p # ps) acc)) =
          (map_of (rev acc))(k \<mapsto> x) ++ map_of (rev ps)"
    by (simp only: p fold_Cons comp_apply prod.case Cons.IH map_of_rev_set_prop)
  also have "\<dots> = map_of (rev acc) ++ map_of (rev (p # ps))"
    by (rule ext) (simp add: p map_add_def split: option.splits)
  finally show ?case .
qed

lemma get_spread:
  "get_prop (spread acc v) k =
     (if has_prop (own_props v) k then get_prop (own_props v) k else get_prop acc k)"
  by (auto simp: get_prop_def spread_def map_of_rev_fold_set_prop has_prop_map_of map_add_def
           split: option.splits)

lemma has_spread: "has_prop (spread acc v) k \<longleftrightarrow> has_prop acc k \<or> has_prop (own_props v) k"
  by (auto simp: spread_def map_of_rev_fold_set_prop has_prop_map_of map_add_def
           split: option.splits)

lemma get_prop_Nil: "get_prop [] k = JUndefined"
  by (simp add: get_prop_def)

lemma has_prop_Nil: "\<not> has_prop [] k"
  by (simp add: has_prop_def)

lemma get_prop_absent: "\<not> has_prop ob k \<Longrightarrow> get_prop ob k = JUndefined"
  by (simp add: get_prop_def has_prop_map_of)

lemma fold_set_prop_distinct:
  "distinct (map fst (acc @ ps)) \<Longrightarrow> fold (\<lambda>(k, x). set_prop k x) ps acc = acc @ ps"
proof (induction ps arbitrary: acc)
  case Nil
  then show ?case by simp
next
  case (Cons p ps)
  obtain k x where p: "p = (k, x)" by (cases p)
  from Cons.prems have fresh: "\<not> has_prop acc k"
    by (auto simp: p has_prop_def)
  from Cons.prems have "distinct (map fst ((acc @ [p]) @ ps))"
    by simp
  then have "fold (\<lambda>(k, x). set_prop k x) ps (acc @ [p]) = (acc @ [p]) @ ps"
    by (rule Cons.IH)
  moreover from fresh have "set_prop k x acc = acc @ [(k, x)]"
    by (simp add: set_prop_def)
  ultimately show ?case
    by (simp add: p)
qed

lemma spread_Nil_distinct: "distinct (map fst ob) \<Longrightarrow> spread [] (JObj ob) = ob"
  using fold_set_prop_distinct [of "[]" ob] by (simp add: spread_def)

lemma spread_empty_object: "spread acc (JObj []) = acc"
  by (simp add: spread_def)

lemma get_prop_distinct:
  "distinct (map fst ob) \<Longrightarrow> (k, v) \<in> set ob \<Longrightarrow> get_prop ob k = v"
proof -
  assume d: "distinct (map fst ob)" and m: "(k, v) \<in> set ob"
  from d have "distinct (map fst (rev ob))"
    by (simp add: rev_map [symmetric])
  moreover from m have "(k, v) \<in> set (rev ob)"
    by simp
  ultimately have "map_of (rev ob) k = Some v"
    by (rule map_of_is_SomeI)
  then show ?thesis
    by (simp add: get_prop_def)
qed

lemma set_prop_same_value:
  assumes "distinct (map fst ob)"
  shows "set_prop k (get_prop ob k) ob =
           (if has_prop ob k then ob else ob @ [(k, JUndefined)])"
proof (cases "has_prop ob k")
  case True
  have "map (\<lambda>(k', v'). if k' = k then (k', get_prop ob k) else (k', v')) ob = ob"
    by (rule map_idI) (auto simp: get_prop_distinct [OF assms])
  with True show ?thesis
    by (simp add: set_prop_def)
next
  case False
  then show ?thesis
    by (simp add: set_prop_def get_prop_absent)
qed

lemma set_prop_same_value_json:
  assumes "distinct (map fst ob)"
  shows "json_props (set_prop k (get_prop ob k) ob) = json_props ob"
    and "distinct (map fst (set_prop k (get_prop ob k) ob))"
  using assms by (auto simp: set_prop_same_value json_props_def has_prop_def)

section \<open>Properties of mergeState\<close>

lemma get_mergeState_other:
  assumes "k \<notin> set curated_fields"
  shows "get_prop (mergeState currentState updates) k =
           (if has_prop updates k then get_prop updates k else get_prop currentState k)"
proof -
  have "get_prop (mergeState currentState updates) k =
          get_prop (spread (spread [] (JObj currentState)) (JObj updates)) k"
    using assms by (simp add: mergeState_def curated_fields_def get_set_prop)
  also have "\<dots> = (if has_prop updates k then get_prop updates k else get_prop currentState k)"
    by (simp add: get_spread get_prop_Nil get_prop_absent)
  finally show ?thesis .
qed

lemma get_mergeState_curated:
  assumes "k \<in> set curated_fields"
  shows "get_prop (mergeState currentState updates) k =
           (if truthy (get_prop updates k)
            then JObj (spread (spread [] (get_prop currentState k)) (get_prop updates k))
            else get_prop currentState k)"
  using assms by (auto simp: mergeState_def curated_fields_def get_set_prop)

lemma get_merged_object:
  "get_prop (spread (spread [] x) y) j =
     (if has_prop (own_props y) j then get_prop (own_props y) j else get_prop (own_props x) j)"
  by (simp add: get_spread get_prop_Nil get_prop_absent)

lemma has_merged_object:
  "has_prop (spread (spread [] x) y) j \<longleftrightarrow> has_prop (own_props x) j \<or> has_prop (own_props y) j"
  by (simp add: has_spread has_prop_Nil)

section \<open>Claims about mergeState\<close>

text \<open>
  C4. For every current state and every update, \<open>mergeState\<close> merges each of the nested
  fields \<open>parsedData\<close>, \<open>duplicateCheckResult\<close>, \<open>mtoData\<close> and \<open>quote\<close> that the
  update carries key by key: the merged field is an object that has exactly the keys of
  either side, and reads each key from the update when the update's field has it and from
  the current state's field otherwise; a nested field that the update does not carry keeps
  the current value. Every other field is read from the update whenever the update has it,
  whole, and from the current state otherwise. Merging \<open>{parsedData: {a: 1}}\<close> and then
  \<open>{parsedData: {b: 2}}\<close> gives \<open>parsedData = {a: 1, b: 2}\<close>.
\<close>

theorem mergeState_curated_keywise_others_wholesale:
  "(k \<notin> set curated_fields \<longrightarrow>
      get_prop (mergeState currentState updates) k =
        (if has_prop updates k then get_prop updates k else get_prop currentState k))
   \<and> (k \<in> set curated_fields \<longrightarrow> truthy (get_prop updates k) \<longrightarrow>
        (\<exists>merged.
           get_prop (mergeState currentState updates) k = JObj merged
           \<and> has_prop merged j =
               (has_prop (own_props (get_prop currentState k)) j
                \<or> has_prop (own_props (get_prop updates k)) j)
           \<and> get_prop merged j =
               (if has_prop (own_props (get_prop updates k)) j
                then get_prop (own_props (get_prop updates k)) j
                else get_prop (own_props (get_prop currentState k)) j)))
   \<and> (k \<in> set curated_fields \<longrightarrow> \<not> truthy (get_prop updates k) \<longrightarrow>
        get_prop (mergeState currentState updates) k = get_prop currentState k)
   \<and> get_prop
        (mergeState (mergeState [] [(''parsedData'', JObj [(''a'', JNum 1)])])
           [(''parsedData'', JObj [(''b'', JNum 2)])]) ''parsedData''
       = JObj [(''a'', JNum 1), (''b'', JNum 2)]"
proof (intro conjI impI)
  assume "k \<notin> set curated_fields"
  then show "get_prop (mergeState currentState updates) k =
        (if has_prop updates k then get_prop updates k else get_prop currentState k)"
    by (rule get_mergeState_other)
next
  assume k: "k \<in> set curated_fields" and t: "truthy (get_prop updates k)"
  let ?merged = "spread (spread [] (get_prop currentState k)) (get_prop updates k)"
  have "get_prop (mergeState currentState updates) k = JObj ?merged"
    using k t by (simp add: get_mergeState_curated)
  moreover have "has_prop ?merged j =
      (has_prop (own_props (get_prop currentState k)) j
       \<or> has_prop (own_props (get_prop updates k)) j)"
    by (rule has_merged_object)
  moreover have "get_prop ?merged j =
      (if has_prop (own_props (get_prop updates k)) j
       then get_prop (own_props (get_prop updates k)) j
       else get_prop (own_props (get_prop currentState k)) j)"
    by (rule get_merged_object)
  ultimately show "\<exists>merged.
           get_prop (mergeState currentState updates) k = JObj merged
           \<and> has_prop merged j =
               (has_prop (own_props (get_prop currentState k)) j
                \<or> has_prop (own_props (get_prop updates k)) j)
           \<and> get_prop merged j =
               (if has_prop (own_props (get_prop updates k)) j
                then get_prop (own_props (get_prop updates k)) j
                else get_prop (own_props (get_prop currentState k)) j)"
    by blast
next
  assume "k \<in> set curated_fields" and "\<not> truthy (get_prop updates k)"
  then show "get_prop (mergeState currentState updates) k = get_prop currentState k"
    by (simp add: get_mergeState_curated)
next
  show "get_prop
        (mergeState (mergeState [] [(''parsedData'', JObj [(''a'', JNum 1)])])
           [(''parsedData'', JObj [(''b'', JNum 2)])]) ''parsedData''
       = JObj [(''a'', JNum 1), (''b'', JNum 2)]"
    by (simp add: mergeState_def get_set_prop get_prop_def spread_def set_prop_def has_prop_def)
qed

theorem mergeState_curated_keywise_others_wholesale_witness:
  "''priority'' \<notin> set curated_fields
   \<and> get_prop (mergeState [(''priority'', JStr ''LOW''), (''complexity'', JStr ''SIMPLE'')]
                 [(''priority'', JStr ''HIGH'')]) ''priority'' = JStr ''HIGH''
   \<and> ''quote'' \<in> set curated_fields
   \<and> truthy (get_prop [(''quote'', JObj [(''tax'', JNum 2)])] ''quote'')
   \<and> (\<exists>merged.
         get_prop (mergeState [(''quote'', JObj [(''total'', JNum 10)])]
                     [(''quote'', JObj [(''tax'', JNum 2)])]) ''quote'' = JObj merged
         \<and> has_prop merged ''total''
         \<and> get_prop merged ''total'' = JNum 10)
   \<and> \<not> truthy (get_prop [(''priority'', JStr ''HIGH'')] ''quote'')
   \<and> get_prop (mergeState [(''quote'', JObj [(''total'', JNum 10)])]
                 [(''priority'', JStr ''HIGH'')]) ''quote'' = JObj [(''total'', JNum 10)]"
proof -
  have other: "''priority'' \<notin> set curated_fields"
    by (simp add: curated_fields_def)
  have curated: "''quote'' \<in> set curated_fields"
    by (simp add: curated_fields_def)
  have given: "truthy (get_prop [(''quote'', JObj [(''tax'', JNum 2)])] ''quote'')"
    by (simp add: get_prop_def)
  have absent: "\<not> truthy (get_prop [(''priority'', JStr ''HIGH'')] ''quote'')"
    by (simp add: get_prop_def)
  have "get_prop (mergeState [(''priority'', JStr ''LOW''), (''complexity'', JStr ''SIMPLE'')]
                 [(''priority'', JStr ''HIGH'')]) ''priority'' = JStr ''HIGH''"
    using other
      mergeState_curated_keywise_others_wholesale
        [where k = "''priority''"
           and currentState = "[(''priority'', JStr ''LOW''), (''complexity'', JStr ''SIMPLE'')]"
           and updates = "[(''priority'', JStr ''HIGH'')]"]
    by (simp add: has_prop_def get_prop_def)
  moreover have "\<exists>merged.
         get_prop (mergeState [(''quote'', JObj [(''total'', JNum 10)])]
                     [(''quote'', JObj [(''tax'', JNum 2)])]) ''quote'' = JObj merged
         \<and> has_prop merged ''total''
         \<and> get_prop merged ''total'' = JNum 10"
    using curated given
      mergeState_curated_keywise_others_wholesale
        [where k = "''quote''" and j = "''total''"
           and currentState = "[(''quote'', JObj [(''total'', JNum 10)])]"
           and updates = "[(''quote'', JObj [(''tax'', JNum 2)])]"]
    by (simp add: has_prop_def get_prop_def)
  moreover have "get_prop (mergeState [(''quote'', JObj [(''total'', JNum 10)])]
                 [(''priority'', JStr ''HIGH'')]) ''quote'' = JObj [(''total'', JNum 10)]"
    using curated absent
      mergeState_curated_keywise_others_wholesale
        [where k = "''quote''"
           and currentState = "[(''quote'', JObj [(''total'', JNum 10)])]"
           and updates = "[(''priority'', JStr ''HIGH'')]"]
    by (simp add: get_prop_def)
  ultimately show ?thesis
    using other curated given absent by blast
qed

text \<open>
  C10. Merging the empty update is the identity on states: for every state \<open>s\<close> and every
  field name, top-level or one of the four nested fields, the merged state reads at that
  field what \<open>s\<close> reads there; and when the keys of \<open>s\<close> are distinct the merged state
  and \<open>s\<close> have the same JSON properties, in the same order. (The merged object also
  carries each nested field that \<open>s\<close> lacks as an own property of value
  \<open>undefined\<close>, which reads like an absent one and is not written to JSON.)
\<close>

theorem mergeState_empty_update_identity:
  "get_prop (mergeState s []) k = get_prop s k
   \<and> (distinct (map fst s) \<longrightarrow> json_props (mergeState s []) = json_props s)"
proof
  show "get_prop (mergeState s []) k = get_prop s k"
    by (simp add: mergeState_def get_set_prop get_spread get_prop_Nil has_prop_Nil
          get_prop_absent)
next
  show "distinct (map fst s) \<longrightarrow> json_props (mergeState s []) = json_props s"
  proof
    assume d: "distinct (map fst s)"
    let ?p = "set_prop ''parsedData'' (get_prop s ''parsedData'') s"
    let ?d = "set_prop ''duplicateCheckResult'' (get_prop s ''duplicateCheckResult'') ?p"
    let ?m = "set_prop ''mtoData'' (get_prop s ''mtoData'') ?d"
    let ?q = "set_prop ''quote'' (get_prop s ''quote'') ?m"
    have unfold: "mergeState s [] = ?q"
      by (simp add: mergeState_def get_prop_Nil spread_empty_object spread_Nil_distinct [OF d])
    have p: "json_props ?p = json_props s" "distinct (map fst ?p)"
      using set_prop_same_value_json [OF d] by simp_all
    have "get_prop ?p ''duplicateCheckResult'' = get_prop s ''duplicateCheckResult''"
      by (simp add: get_set_prop)
    then have dd: "json_props ?d = json_props s" "distinct (map fst ?d)"
      using set_prop_same_value_json [OF p(2), of "''duplicateCheckResult''"] p(1) by simp_all
    have "get_prop ?d ''mtoData'' = get_prop s ''mtoData''"
      by (simp add: get_set_prop)
    then have m: "json_props ?m = json_props s" "distinct (map fst ?m)"
      using set_prop_same_value_json [OF dd(2), of "''mtoData''"] dd(1) by simp_all
    have "get_prop ?m ''quote'' = get_prop s ''quote''"
      by (simp add: get_set_prop)
    then have "json_props ?q = json_props s"
      using set_prop_same_value_json(1) [OF m(2), of "''quote''"] m(1) by simp
    with unfold show "json_props (mergeState s []) = json_props s"
      by simp
  qed
qed

theorem mergeState_empty_update_identity_witness:
  "distinct (map fst [(''priority'', JStr ''HIGH''), (''quote'', JObj [(''total'', JNum 10)])])
   \<and> get_prop (mergeState [(''priority'', JStr ''HIGH''), (''quote'', JObj [(''total'', JNum 10)])] [])
        ''quote'' = JObj [(''total'', JNum 10)]
   \<and> json_props (mergeState [(''priority'', JStr ''HIGH''), (''quote'', JObj [(''total'', JNum 10)])] [])
       = [(''priority'', JStr ''HIGH''), (''quote'', JObj [(''total'', JNum 10)])]"
  using mergeState_empty_update_identity
    [where s = "[(''priority'', JStr ''HIGH''), (''quote'', JObj [(''total'', JNum 10)])]"
       and k = "''quote''"]
  by (simp add: get_prop_def json_props_def)

section \<open>Properties of the effects\<close>

lemmas io_defs = io_bind_def io_return_def io_throw_def now_def uuidv4_def

lemmas fixture_defs = fixture_world_def frozen_clock_world_def fixture_execution_def
  fixture_job_def fixture_snapshot_def initialized_queues_def AGENT_PIPELINE_def

lemma find_map_update:
  assumes "\<And>x. e_id (g x) = e_id x"
  shows "find (\<lambda>e. e_id e = i) (map (\<lambda>x. if e_id x = i then g x else x) xs) =
           map_option g (find (\<lambda>e. e_id e = i) xs)"
  using assms by (induction xs) auto

lemma execution_update_found:
  assumes "execution_findUnique i w = Some e"
  shows "execution_update i f w =
           (Inr ((f e)\<lparr>e_updatedAt := clock w (clock_reads w)\<rparr>),
            w\<lparr>clock_reads := Suc (clock_reads w),
              executions :=
                map (\<lambda>x. if e_id x = i then (f x)\<lparr>e_updatedAt := clock w (clock_reads w)\<rparr> else x)
                  (executions w)\<rparr>)"
  using assms by (simp add: execution_update_def io_defs)

lemma save_fresh:
  assumes "ev_id ev \<notin> set (map ev_id (events w))"
  shows "save ev w = (Inr (ev_id ev), w\<lparr>events := events w @ [ev]\<rparr>)"
  using assms by (simp add: save_def event_create_def io_defs)

lemma createSnapshot_fresh:
  assumes "executionId \<in> set (map e_id (executions w))"
      and "uuids w (uuid_reads w) \<notin> set (map s_id (rfqSnapshots w))"
  shows "createSnapshot executionId agentName snapshotType d w =
           (Inr (uuids w (uuid_reads w)),
            w\<lparr>uuid_reads := Suc (uuid_reads w), clock_reads := Suc (clock_reads w),
              rfqSnapshots := rfqSnapshots w @
                [\<lparr>s_id = uuids w (uuid_reads w), s_executionId = executionId,
                  s_agentName = agentName, s_snapshotType = snapshotType, s_data = d,
                  s_createdAt = clock w (clock_reads w)\<rparr>]\<rparr>)"
  using assms by (simp add: createSnapshot_def rfqSnapshot_create_def io_defs Let_def)

lemma map_of_queue_update:
  "map_of (map (\<lambda>(n, jobs). if n = a then (n, f jobs) else (n, jobs)) qs) b =
     (if b = a then map_option f (map_of qs a) else map_of qs b)"
  by (induction qs) auto

lemma enqueue_found:
  assumes "map_of (queues w) agentName = Some q"
  shows "enqueue agentName executionId w =
           (Inr (jobId executionId agentName (clock w (clock_reads w))),
            w\<lparr>clock_reads := Suc (clock_reads w),
              queues :=
                map (\<lambda>(n, jobs).
                       if n = agentName
                       then (n, queue_add \<lparr>j_id = jobId executionId agentName (clock w (clock_reads w)),
                                           j_name = agentName,
                                           j_executionId = executionId,
                                           j_attemptsMade = 0\<rparr> jobs)
                       else (n, jobs))
                  (queues w)\<rparr>)"
  using assms by (simp add: enqueue_def io_defs)

lemma digit_inj: "d < 10 \<Longrightarrow> d' < 10 \<Longrightarrow> digit d = digit d' \<Longrightarrow> d = d'"
proof -
  assume a: "d < 10" "d' < 10" "digit d = digit d'"
  have e: "\<And>n::nat. n < 10 \<Longrightarrow> n \<in> {0,1,2,3,4,5,6,7,8,9}" by auto
  from e[OF a(1)] e[OF a(2)] a(3) show ?thesis
    by (auto simp: digit_def)
qed

lemma toString_nonempty: "toString n \<noteq> []"
  by (subst toString.simps) simp

lemma toString_inj: "toString n = toString m \<Longrightarrow> n = m"
proof (induction n arbitrary: m rule: toString.induct)
  case (1 n)
  show ?case
  proof (cases "n < 10")
    case True
    then have n: "toString n = [digit n]" by (subst toString.simps) simp
    show ?thesis
    proof (cases "m < 10")
      case True
      then have "toString m = [digit m]" by (subst toString.simps) simp
      with n "1.prems" have "digit n = digit m" by simp
      with \<open>n < 10\<close> True show ?thesis by (rule digit_inj)
    next
      case False
      then have "toString m = toString (m div 10) @ [digit (m mod 10)]"
        by (subst toString.simps) simp
      with n "1.prems" toString_nonempty [of "m div 10"] show ?thesis
        by (cases "toString (m div 10)") auto
    qed
  next
    case False
    then have n: "toString n = toString (n div 10) @ [digit (n mod 10)]"
      by (subst toString.simps) simp
    show ?thesis
    proof (cases "m < 10")
      case True
      then have "toString m = [digit m]" by (subst toString.simps) simp
      with n "1.prems" toString_nonempty [of "n div 10"] show ?thesis
        by (cases "toString (n div 10)") auto
    next
      case m: False
      then have "toString m = toString (m div 10) @ [digit (m mod 10)]"
        by (subst toString.simps) simp
      with n "1.prems" have eq: "toString (n div 10) = toString (m div 10)"
        and dg: "digit (n mod 10) = digit (m mod 10)" by simp_all
      from "1.IH" [OF False eq] have "n div 10 = m div 10" .
      moreover from dg have "n mod 10 = m mod 10"
        by (intro digit_inj) simp_all
      ultimately show ?thesis
        by (metis div_mult_mod_eq)
    qed
  qed
qed

lemma jobId_eq_iff: "jobId e a t1 = jobId e a t2 \<longleftrightarrow> t1 = t2"
  by (auto simp: jobId_def dest: toString_inj)

lemma find_map_update_Some:
  "find (\<lambda>e. e_id e = i) xs = Some e \<Longrightarrow> (\<And>x. e_id (g x) = e_id x) \<Longrightarrow>
   find (\<lambda>e. e_id e = i) (map (\<lambda>x. if e_id x = i then g x else x) xs) = Some (g e)"
  by (simp add: find_map_update)

lemma find_snoc:
  "find P (xs @ [x]) = (case find P xs of Some y \<Rightarrow> Some y | None \<Rightarrow> if P x then Some x else None)"
  by (induction xs) auto

lemma find_Some_mem: "find (\<lambda>e. e_id e = i) xs = Some e \<Longrightarrow> i \<in> set (map e_id xs)"
  by (induction xs) (auto split: if_splits)

lemma find_None_notin: "i \<notin> set (map e_id xs) \<Longrightarrow> find (\<lambda>e. e_id e = i) xs = None"
  by (induction xs) auto

lemma saveMany_fresh:
  assumes "distinct (map ev_id evs)"
      and "set (map ev_id evs) \<inter> set (map ev_id (events w)) = {}"
  shows "saveMany evs w = (Inr (length evs), w\<lparr>events := events w @ evs\<rparr>)"
  using assms by (cases evs) (simp_all add: saveMany_def event_createMany_def io_defs)

lemma toString_numeral:
  "toString (numeral k) =
     (if (numeral k :: nat) < 10 then [digit (numeral k)]
      else toString (numeral k div 10) @ [digit (numeral k mod 10)])"
  by (rule toString.simps)

lemma toString_digit: "n < 10 \<Longrightarrow> toString n = [digit n]"
  by (subst toString.simps) simp

lemmas eval_defs = toString_numeral toString_digit digit_def

lemma fixture_found:
  "execution_findUnique ''e1'' (fixture_world\<lparr>executions := [fixture_execution ''e1'' status]\<rparr>)
     = Some (fixture_execution ''e1'' status)"
  by (simp add: execution_findUnique_def fixture_execution_def)

lemma fold_max_le:
  "(\<And>s. s \<in> set rows \<Longrightarrow> s_createdAt s \<le> b) \<Longrightarrow> a \<le> b \<Longrightarrow>
     fold (\<lambda>s m. max (s_createdAt s) m) rows a \<le> b"
  by (induction rows arbitrary: a) auto

lemma maxCreatedAt_snoc:
  assumes "\<And>s. s \<in> set earlier \<Longrightarrow> s_createdAt s < s_createdAt latest"
  shows "maxCreatedAt (earlier @ [latest]) = s_createdAt latest"
proof -
  have "fold (\<lambda>s m. max (s_createdAt s) m) earlier 0 \<le> s_createdAt latest"
    using assms by (intro fold_max_le) (auto simp: less_imp_le)
  then show ?thesis
    by (simp add: maxCreatedAt_def max_def)
qed

lemma first_by_createdAt_desc_snoc:
  assumes "\<And>s. s \<in> set earlier \<Longrightarrow> s_createdAt s < s_createdAt latest"
  shows "first_by_createdAt_desc w (earlier @ [latest]) = Some latest"
proof -
  have "filter (\<lambda>s. s_createdAt s = s_createdAt latest) earlier = []"
    using assms by (fastforce simp: filter_empty_conv)
  then show ?thesis
    by (simp add: first_by_createdAt_desc_def maxCreatedAt_snoc [OF assms])
qed

lemma fold_max_attained:
  "fold (\<lambda>s m. max (s_createdAt s) m) rows a \<in> insert a (s_createdAt ` set rows)"
  by (induction rows arbitrary: a) (auto simp: max_def)

lemma maxCreatedAt_attained:
  assumes "rows \<noteq> []"
  shows "maxCreatedAt rows \<in> s_createdAt ` set rows"
proof (cases rows)
  case Nil
  with assms show ?thesis by simp
next
  case (Cons r rs)
  have "fold (\<lambda>s m. max (s_createdAt s) m) rs (s_createdAt r)
          \<in> insert (s_createdAt r) (s_createdAt ` set rs)"
    by (rule fold_max_attained)
  then show ?thesis
    by (simp add: Cons maxCreatedAt_def)
qed

lemma first_by_createdAt_desc_mem:
  assumes "rows \<noteq> []"
  shows "\<exists>src \<in> set rows. first_by_createdAt_desc w rows = Some src"
proof -
  let ?ties = "filter (\<lambda>s. s_createdAt s = maxCreatedAt rows) rows"
  from maxCreatedAt_attained [OF assms] have "?ties \<noteq> []"
    by (auto simp: filter_empty_conv)
  then have "tie_choice w ?ties mod length ?ties < length ?ties"
    by simp
  then have "?ties ! (tie_choice w ?ties mod length ?ties) \<in> set ?ties"
    by (rule nth_mem)
  moreover have "set ?ties \<subseteq> set rows"
    by (rule filter_is_subset)
  ultimately have "?ties ! (tie_choice w ?ties mod length ?ties) \<in> set rows"
    by (rule subsetD [rotated])
  with assms show ?thesis
    by (simp add: first_by_createdAt_desc_def Let_def)
qed

section \<open>Claims about resume and cancel on a refused transition\<close>

text \<open>
  C5, as the code has it. For every existing Execution whose status is not
  \<open>AWAITING_HUMAN\<close>, \<open>resume\<close> raises a \<open>ValidationError\<close> (code
  \<open>VALIDATION_ERROR\<close>, status 400) that names the current status, and leaves the whole
  world as it was: no row of any table changes, no job is enqueued, and neither the clock
  nor the identifier generator is read.
\<close>

theorem resume_rejected_writes_nothing:
  assumes "execution_findUnique executionId w = Some execution"
      and "e_status execution \<noteq> AWAITING_HUMAN"
  shows "resume executionId updatedState resumeFromAgent w =
           (Inl (ValidationError
                   (''Execution is not awaiting human input. Current status: ''
                      @ status_name (e_status execution))), w)"
  using assms by (simp add: resume_def io_defs)

theorem resume_rejected_writes_nothing_witness:
  "execution_findUnique ''e1'' (fixture_world\<lparr>executions := [fixture_execution ''e1'' PENDING]\<rparr>)
     = Some (fixture_execution ''e1'' PENDING)
   \<and> e_status (fixture_execution ''e1'' PENDING) \<noteq> AWAITING_HUMAN
   \<and> resume ''e1'' (Some [(''priority'', JStr ''HIGH'')]) (Some ''intake'')
        (fixture_world\<lparr>executions := [fixture_execution ''e1'' PENDING]\<rparr>)
     = (Inl (ValidationError ''Execution is not awaiting human input. Current status: PENDING''),
        fixture_world\<lparr>executions := [fixture_execution ''e1'' PENDING]\<rparr>)"
proof -
  have found: "execution_findUnique ''e1''
      (fixture_world\<lparr>executions := [fixture_execution ''e1'' PENDING]\<rparr>)
     = Some (fixture_execution ''e1'' PENDING)"
    by (simp add: execution_findUnique_def fixture_execution_def)
  have status: "e_status (fixture_execution ''e1'' PENDING) \<noteq> AWAITING_HUMAN"
    by (simp add: fixture_execution_def)
  show ?thesis
    using found status
      resume_rejected_writes_nothing [OF found status,
        of "Some [(''priority'', JStr ''HIGH'')]" "Some ''intake''"]
    by (simp add: fixture_execution_def)
qed

text \<open>
  C5 as stated asks for a Conflict error. On a \<open>PENDING\<close> Execution the error raised
  does not have the code \<open>CONFLICT\<close>.
\<close>

theorem resume_pending_counterexample:
  "fst (resume ''e1'' None None
          (fixture_world\<lparr>executions := [fixture_execution ''e1'' PENDING]\<rparr>))
     = Inl (ValidationError ''Execution is not awaiting human input. Current status: PENDING'')
   \<and> \<not> raises (fst (resume ''e1'' None None
                    (fixture_world\<lparr>executions := [fixture_execution ''e1'' PENDING]\<rparr>)))
          ''CONFLICT''"
  by (simp add: raises_def resume_def execution_findUnique_def fixture_defs io_defs)

text \<open>
  C6, as the code has it. For every existing Execution, \<open>cancel\<close> raises a
  \<open>ValidationError\<close> and leaves the world as it was when the status is \<open>COMPLETED\<close> or
  \<open>CANCELLED\<close>; for every other status, when the generated event identifier is not taken,
  it returns normally, the Execution has status \<open>CANCELLED\<close> and \<open>completedAt\<close> set to
  the time read, and the event log has grown by exactly one event, of type
  \<open>EXECUTION_CANCELLED\<close>.
\<close>

theorem cancel_refused_or_cancelled:
  assumes "execution_findUnique executionId w = Some execution"
  shows "(e_status execution = COMPLETED \<or> e_status execution = CANCELLED \<longrightarrow>
           cancel executionId w =
             (Inl (ValidationError (''Cannot cancel execution with status: ''
                                      @ status_name (e_status execution))), w))
       \<and> (e_status execution \<noteq> COMPLETED \<longrightarrow> e_status execution \<noteq> CANCELLED \<longrightarrow>
            uuids w (uuid_reads w) \<notin> set (map ev_id (events w)) \<longrightarrow>
            fst (cancel executionId w) = Inr ()
            \<and> execution_findUnique executionId (snd (cancel executionId w)) =
                Some (execution\<lparr>e_status := CANCELLED,
                                e_completedAt := Some (clock w (clock_reads w)),
                                e_updatedAt := clock w (Suc (clock_reads w))\<rparr>)
            \<and> events (snd (cancel executionId w)) =
                events w @ [\<lparr>ev_id = uuids w (uuid_reads w), ev_executionId = executionId,
                              ev_agentTaskId = None, ev_eventType = ''EXECUTION_CANCELLED'',
                              ev_eventData = JObj [],
                              ev_createdAt = clock w (Suc (Suc (clock_reads w)))\<rparr>])"
  using assms
  by (auto simp: cancel_def io_defs execution_update_found save_fresh execution_findUnique_def
        find_map_update)

theorem cancel_refused_or_cancelled_witness:
  "execution_findUnique ''e1'' (fixture_world\<lparr>executions := [fixture_execution ''e1'' CANCELLED]\<rparr>)
     = Some (fixture_execution ''e1'' CANCELLED)
   \<and> cancel ''e1'' (fixture_world\<lparr>executions := [fixture_execution ''e1'' CANCELLED]\<rparr>)
     = (Inl (ValidationError ''Cannot cancel execution with status: CANCELLED''),
        fixture_world\<lparr>executions := [fixture_execution ''e1'' CANCELLED]\<rparr>)
   \<and> execution_findUnique ''e1'' (fixture_world\<lparr>executions := [fixture_execution ''e1'' PROCESSING]\<rparr>)
     = Some (fixture_execution ''e1'' PROCESSING)
   \<and> uuids fixture_world (uuid_reads fixture_world) \<notin> set (map ev_id (events fixture_world))
   \<and> fst (cancel ''e1'' (fixture_world\<lparr>executions := [fixture_execution ''e1'' PROCESSING]\<rparr>))
     = Inr ()
   \<and> map ev_eventType
        (events (snd (cancel ''e1''
           (fixture_world\<lparr>executions := [fixture_execution ''e1'' PROCESSING]\<rparr>))))
     = [''EXECUTION_CANCELLED'']"
proof -
  let ?wc = "fixture_world\<lparr>executions := [fixture_execution ''e1'' CANCELLED]\<rparr>"
  let ?wp = "fixture_world\<lparr>executions := [fixture_execution ''e1'' PROCESSING]\<rparr>"
  have fc: "execution_findUnique ''e1'' ?wc = Some (fixture_execution ''e1'' CANCELLED)"
    by (simp add: execution_findUnique_def fixture_execution_def)
  have fp: "execution_findUnique ''e1'' ?wp = Some (fixture_execution ''e1'' PROCESSING)"
    by (simp add: execution_findUnique_def fixture_execution_def)
  have fresh: "uuids fixture_world (uuid_reads fixture_world)
                 \<notin> set (map ev_id (events fixture_world))"
    by (simp add: fixture_world_def)
  have "cancel ''e1'' ?wc
     = (Inl (ValidationError ''Cannot cancel execution with status: CANCELLED''), ?wc)"
    using cancel_refused_or_cancelled [OF fc] by (simp add: fixture_execution_def)
  moreover have "fst (cancel ''e1'' ?wp) = Inr ()
     \<and> map ev_eventType (events (snd (cancel ''e1'' ?wp))) = [''EXECUTION_CANCELLED'']"
    using cancel_refused_or_cancelled [OF fp] fresh by (simp add: fixture_defs)
  ultimately show ?thesis
    using fc fp fresh by simp
qed

text \<open>
  C6 as stated asks for a Conflict error. On a \<open>COMPLETED\<close> Execution the error raised
  does not have the code \<open>CONFLICT\<close>.
\<close>

theorem cancel_completed_counterexample:
  "fst (cancel ''e1'' (fixture_world\<lparr>executions := [fixture_execution ''e1'' COMPLETED]\<rparr>))
     = Inl (ValidationError ''Cannot cancel execution with status: COMPLETED'')
   \<and> \<not> raises (fst (cancel ''e1''
                    (fixture_world\<lparr>executions := [fixture_execution ''e1'' COMPLETED]\<rparr>)))
          ''CONFLICT''"
  by (simp add: raises_def cancel_def execution_findUnique_def fixture_defs io_defs)

section \<open>Claims about the job key\<close>

text \<open>
  C9, as the code has it. Two \<open>enqueue\<close> calls in a row for the same Execution and the
  same stage, on an existing queue, return the keys made of the execution id, the stage
  name and the time each call reads. When the two times differ the keys differ and the
  queue holds a job under each of them afterwards; when the two calls read the same
  millisecond the keys are equal and the second call leaves the queues as the first left
  them.
\<close>

theorem enqueue_twice_keys:
  assumes "map_of (queues w) agentName = Some q"
  shows "fst (enqueue agentName executionId w) =
           Inr (jobId executionId agentName (clock w (clock_reads w)))
       \<and> fst (enqueue agentName executionId (snd (enqueue agentName executionId w))) =
           Inr (jobId executionId agentName (clock w (Suc (clock_reads w))))
       \<and> (clock w (clock_reads w) \<noteq> clock w (Suc (clock_reads w)) \<longrightarrow>
            jobId executionId agentName (clock w (clock_reads w))
              \<noteq> jobId executionId agentName (clock w (Suc (clock_reads w)))
            \<and> (\<exists>q2. map_of (queues (snd (enqueue agentName executionId
                                 (snd (enqueue agentName executionId w))))) agentName = Some q2
                  \<and> jobId executionId agentName (clock w (clock_reads w)) \<in> set (map j_id q2)
                  \<and> jobId executionId agentName (clock w (Suc (clock_reads w))) \<in> set (map j_id q2)))
       \<and> (clock w (clock_reads w) = clock w (Suc (clock_reads w)) \<longrightarrow>
            queues (snd (enqueue agentName executionId (snd (enqueue agentName executionId w))))
              = queues (snd (enqueue agentName executionId w)))"
proof -
  define t1 where "t1 = clock w (clock_reads w)"
  define t2 where "t2 = clock w (Suc (clock_reads w))"
  define j1 where "j1 = \<lparr>j_id = jobId executionId agentName t1, j_name = agentName,
               j_executionId = executionId, j_attemptsMade = 0\<rparr>"
  define j2 where "j2 = \<lparr>j_id = jobId executionId agentName t2, j_name = agentName,
               j_executionId = executionId, j_attemptsMade = 0\<rparr>"
  define put where "put = (\<lambda>j (qs :: (string \<times> job list) list).
      map (\<lambda>(n, jobs). if n = agentName then (n, queue_add j jobs) else (n, jobs)) qs)"
  define w1 where "w1 = w\<lparr>clock_reads := Suc (clock_reads w), queues := put j1 (queues w)\<rparr>"
  define w2 where "w2 = w1\<lparr>clock_reads := Suc (clock_reads w1), queues := put j2 (queues w1)\<rparr>"
  have e1: "enqueue agentName executionId w = (Inr (jobId executionId agentName t1), w1)"
    unfolding enqueue_found [OF assms, of executionId]
    by (simp add: w1_def put_def j1_def t1_def)
  have q1: "map_of (queues w1) agentName = Some (queue_add j1 q)"
    using assms by (simp add: w1_def put_def map_of_queue_update)
  have w1: "clock w1 = clock w" "clock_reads w1 = Suc (clock_reads w)"
    by (simp_all add: w1_def)
  have e2: "enqueue agentName executionId w1 = (Inr (jobId executionId agentName t2), w2)"
    unfolding enqueue_found [OF q1, of executionId] w1
    by (simp add: w2_def put_def j2_def t2_def w1)
  have q2: "map_of (queues w2) agentName = Some (queue_add j2 (queue_add j1 q))"
    using q1 by (simp add: w2_def put_def map_of_queue_update)
  have in1: "jobId executionId agentName t1 \<in> set (map j_id (queue_add j2 (queue_add j1 q)))"
    by (simp add: queue_add_def j1_def)
  have in2: "jobId executionId agentName t2 \<in> set (map j_id (queue_add j2 (queue_add j1 q)))"
    by (simp add: queue_add_def j2_def)
  have same: "queues w2 = queues w1" if "t1 = t2"
  proof -
    from that have "j2 = j1"
      by (simp add: j1_def j2_def)
    moreover have "queue_add j1 (queue_add j1 jobs) = queue_add j1 jobs" for jobs
      by (simp add: queue_add_def)
    ultimately have "put j2 (put j1 (queues w)) = put j1 (queues w)"
      by (simp add: put_def case_prod_unfold cong: if_cong)
    then show ?thesis
      by (simp add: w2_def w1_def)
  qed
  show ?thesis
    using q2 in1 in2 same
    by (simp add: e1 e2 jobId_eq_iff t1_def [symmetric] t2_def [symmetric])
qed

theorem enqueue_twice_keys_witness:
  "map_of (queues fixture_world) ''intake'' = Some []
   \<and> clock fixture_world (clock_reads fixture_world)
       \<noteq> clock fixture_world (Suc (clock_reads fixture_world))
   \<and> fst (enqueue ''intake'' ''e1'' fixture_world) = Inr (jobId ''e1'' ''intake'' 1000)
   \<and> fst (enqueue ''intake'' ''e1'' (snd (enqueue ''intake'' ''e1'' fixture_world)))
       = Inr (jobId ''e1'' ''intake'' 1001)
   \<and> jobId ''e1'' ''intake'' 1000 \<noteq> jobId ''e1'' ''intake'' 1001
   \<and> map_of (queues frozen_clock_world) ''intake'' = Some []
   \<and> clock frozen_clock_world (clock_reads frozen_clock_world)
       = clock frozen_clock_world (Suc (clock_reads frozen_clock_world))
   \<and> queues (snd (enqueue ''intake'' ''e1'' (snd (enqueue ''intake'' ''e1'' frozen_clock_world))))
       = queues (snd (enqueue ''intake'' ''e1'' frozen_clock_world))"
proof -
  have q: "map_of (queues fixture_world) ''intake'' = Some []"
    by (simp add: fixture_defs)
  have qf: "map_of (queues frozen_clock_world) ''intake'' = Some []"
    by (simp add: fixture_defs)
  have ticks: "clock fixture_world (clock_reads fixture_world) = 1000"
    "clock fixture_world (Suc (clock_reads fixture_world)) = 1001"
    by (simp_all add: fixture_defs)
  have frozen: "clock frozen_clock_world (clock_reads frozen_clock_world)
       = clock frozen_clock_world (Suc (clock_reads frozen_clock_world))"
    by (simp add: fixture_defs)
  show ?thesis
    using q qf frozen
      enqueue_twice_keys [OF q, of "''e1''"] enqueue_twice_keys [OF qf, of "''e1''"]
    by (simp add: ticks)
qed

text \<open>
  C9 as stated promises a second, distinct job for every pair of calls. Within one
  millisecond the second call returns the key of the first and the queue holds one job.
\<close>

theorem enqueue_same_millisecond_counterexample:
  "fst (enqueue ''intake'' ''e1'' (snd (enqueue ''intake'' ''e1'' frozen_clock_world)))
     = fst (enqueue ''intake'' ''e1'' frozen_clock_world)
   \<and> map_of (queues (snd (enqueue ''intake'' ''e1''
                 (snd (enqueue ''intake'' ''e1'' frozen_clock_world))))) ''intake''
     = Some [\<lparr>j_id = ''e1-intake-1000'', j_name = ''intake'', j_executionId = ''e1'',
              j_attemptsMade = 0\<rparr>]"
  by (simp add: enqueue_def fixture_defs io_defs jobId_def queue_add_def toString.simps digit_def)

section \<open>Claims about the latest Snapshot\<close>

lemma createSnapshot_missing_execution:
  assumes "executionId \<notin> set (map e_id (executions w))"
      and "uuids w (uuid_reads w) \<notin> set (map s_id (rfqSnapshots w))"
  shows "fst (createSnapshot executionId agentName snapshotType d w) = Inl (PrismaError ''P2003'')"
    and "rfqSnapshots (snd (createSnapshot executionId agentName snapshotType d w)) =
           rfqSnapshots w"
  using assms by (simp_all add: createSnapshot_def rfqSnapshot_create_def io_defs)

text \<open>
  C3, as the code has it. \<open>getLatestSnapshot\<close> orders by \<open>createdAt\<close> alone. For an
  existing Execution: when its Snapshots, in the order they were created, end with one
  whose \<open>createdAt\<close> is strictly later than that of every earlier one,
  \<open>getLatestSnapshot\<close> returns the data of that last Snapshot, whatever the database
  does on ties; and \<open>createSnapshot\<close>, when the generated identifier is not taken,
  appends one Snapshot after the existing ones of the Execution, holding the data given and
  stamped with the time read.
\<close>

theorem getLatestSnapshot_strictly_latest:
  assumes "execution_findUnique executionId w = Some execution"
  shows "(filter (\<lambda>s. s_executionId s = executionId) (rfqSnapshots w) = earlier @ [latest] \<longrightarrow>
      (\<forall>s \<in> set earlier. s_createdAt s < s_createdAt latest) \<longrightarrow>
      getLatestSnapshot executionId w = Some (s_data latest))
   \<and> (uuids w (uuid_reads w) \<notin> set (map s_id (rfqSnapshots w)) \<longrightarrow>
        fst (createSnapshot executionId agentName snapshotType d w) = Inr (uuids w (uuid_reads w))
        \<and> filter (\<lambda>s. s_executionId s = executionId)
            (rfqSnapshots (snd (createSnapshot executionId agentName snapshotType d w)))
          = filter (\<lambda>s. s_executionId s = executionId) (rfqSnapshots w)
            @ [\<lparr>s_id = uuids w (uuid_reads w), s_executionId = executionId,
                s_agentName = agentName, s_snapshotType = snapshotType, s_data = d,
                s_createdAt = clock w (clock_reads w)\<rparr>])"
proof -
  from assms have "executionId \<in> set (map e_id (executions w))"
    unfolding execution_findUnique_def by (rule find_Some_mem)
  then show ?thesis
    by (auto simp: getLatestSnapshot_def first_by_createdAt_desc_snoc createSnapshot_fresh)
qed

theorem getLatestSnapshot_strictly_latest_witness:
  "fst (createSnapshot ''e1'' ''intake'' OUTPUT [(''priority'', JStr ''LOW'')]
          (fixture_world\<lparr>executions := [fixture_execution ''e1'' PROCESSING]\<rparr>))
     = Inr ''u0''
   \<and> getLatestSnapshot ''e1''
       (snd (createSnapshot ''e1'' ''missing-info'' OUTPUT [(''priority'', JStr ''HIGH'')]
          (snd (createSnapshot ''e1'' ''intake'' OUTPUT [(''priority'', JStr ''LOW'')]
             (fixture_world\<lparr>executions := [fixture_execution ''e1'' PROCESSING]\<rparr>)))))
     = Some [(''priority'', JStr ''HIGH'')]"
proof -
  let ?w = "fixture_world\<lparr>executions := [fixture_execution ''e1'' PROCESSING]\<rparr>"
  let ?r1 = "\<lparr>s_id = ''u0'', s_executionId = ''e1'', s_agentName = ''intake'',
              s_snapshotType = OUTPUT, s_data = [(''priority'', JStr ''LOW'')],
              s_createdAt = 1000\<rparr>"
  let ?r2 = "\<lparr>s_id = ''u1'', s_executionId = ''e1'', s_agentName = ''missing-info'',
              s_snapshotType = OUTPUT, s_data = [(''priority'', JStr ''HIGH'')],
              s_createdAt = 1001\<rparr>"
  let ?w2 = "?w\<lparr>uuid_reads := Suc (Suc 0), clock_reads := Suc (Suc 0),
               rfqSnapshots := [?r1, ?r2]\<rparr>"
  have found: "execution_findUnique ''e1'' ?w = Some (fixture_execution ''e1'' PROCESSING)"
    by (simp add: execution_findUnique_def fixture_execution_def)
  have found2: "execution_findUnique ''e1'' ?w2 = Some (fixture_execution ''e1'' PROCESSING)"
    by (simp add: execution_findUnique_def fixture_execution_def)
  have fresh: "uuids ?w (uuid_reads ?w) \<notin> set (map s_id (rfqSnapshots ?w))"
    by (simp add: fixture_world_def)
  have first: "snd (createSnapshot ''e1'' ''intake'' OUTPUT [(''priority'', JStr ''LOW'')] ?w)
      = ?w\<lparr>uuid_reads := Suc 0, clock_reads := Suc 0, rfqSnapshots := [?r1]\<rparr>"
    by (simp add: createSnapshot_fresh fixture_defs eval_defs)
  have second: "snd (createSnapshot ''e1'' ''missing-info'' OUTPUT [(''priority'', JStr ''HIGH'')]
       (?w\<lparr>uuid_reads := Suc 0, clock_reads := Suc 0, rfqSnapshots := [?r1]\<rparr>)) = ?w2"
    by (simp add: createSnapshot_fresh fixture_defs eval_defs)
  have rows: "filter (\<lambda>s. s_executionId s = ''e1'') (rfqSnapshots ?w2) = [?r1] @ [?r2]"
    by simp
  have later: "\<forall>s \<in> set [?r1]. s_createdAt s < s_createdAt ?r2"
    by simp
  have "fst (createSnapshot ''e1'' ''intake'' OUTPUT [(''priority'', JStr ''LOW'')] ?w)
          = Inr (uuids ?w (uuid_reads ?w))"
    using fresh
      getLatestSnapshot_strictly_latest
        [where w = ?w and executionId = "''e1''" and agentName = "''intake''"
           and snapshotType = OUTPUT and d = "[(''priority'', JStr ''LOW'')]", OF found]
    by blast
  moreover have "getLatestSnapshot ''e1'' ?w2 = Some (s_data ?r2)"
    using rows later
      getLatestSnapshot_strictly_latest
        [where w = ?w2 and executionId = "''e1''" and earlier = "[?r1]" and latest = ?r2,
         OF found2]
    by blast
  ultimately show ?thesis
    unfolding first second
    by (simp add: fixture_world_def eval_defs)
qed

text \<open>
  C3 as stated has ties in creation time broken by insertion order. Two Snapshots created
  for an existing Execution within one millisecond carry the same \<open>createdAt\<close>; with a
  database that puts the first stored row first among equals, \<open>getLatestSnapshot\<close>
  returns the data of the first Snapshot, not of the second.
\<close>

theorem getLatestSnapshot_tie_counterexample:
  "getLatestSnapshot ''e1''
     (snd (createSnapshot ''e1'' ''missing-info'' OUTPUT [(''priority'', JStr ''HIGH'')]
        (snd (createSnapshot ''e1'' ''intake'' OUTPUT [(''priority'', JStr ''LOW'')]
           (frozen_clock_world\<lparr>executions := [fixture_execution ''e1'' PROCESSING]\<rparr>)))))
   = Some [(''priority'', JStr ''LOW'')]"
proof -
  let ?w = "frozen_clock_world\<lparr>executions := [fixture_execution ''e1'' PROCESSING]\<rparr>"
  let ?r1 = "\<lparr>s_id = ''u0'', s_executionId = ''e1'', s_agentName = ''intake'',
              s_snapshotType = OUTPUT, s_data = [(''priority'', JStr ''LOW'')],
              s_createdAt = 1000\<rparr>"
  let ?r2 = "\<lparr>s_id = ''u1'', s_executionId = ''e1'', s_agentName = ''missing-info'',
              s_snapshotType = OUTPUT, s_data = [(''priority'', JStr ''HIGH'')],
              s_createdAt = 1000\<rparr>"
  have first: "snd (createSnapshot ''e1'' ''intake'' OUTPUT [(''priority'', JStr ''LOW'')] ?w)
      = ?w\<lparr>uuid_reads := Suc 0, clock_reads := Suc 0, rfqSnapshots := [?r1]\<rparr>"
    by (simp add: createSnapshot_fresh fixture_defs eval_defs)
  have second: "snd (createSnapshot ''e1'' ''missing-info'' OUTPUT [(''priority'', JStr ''HIGH'')]
       (?w\<lparr>uuid_reads := Suc 0, clock_reads := Suc 0, rfqSnapshots := [?r1]\<rparr>))
      = ?w\<lparr>uuid_reads := Suc (Suc 0), clock_reads := Suc (Suc 0),
          rfqSnapshots := [?r1, ?r2]\<rparr>"
    by (simp add: createSnapshot_fresh fixture_defs eval_defs)
  show ?thesis
    unfolding first second
    by (simp add: getLatestSnapshot_def first_by_createdAt_desc_def maxCreatedAt_def
          fixture_defs)
qed

section \<open>Claims about replay\<close>

lemma replay_frame:
  assumes "execution_findUnique executionId w = Some original"
  shows "execution_findUnique executionId (snd (replay executionId fromAgent w)) = Some original"
    and "filter (\<lambda>s. s_executionId s = executionId) (rfqSnapshots (snd (replay executionId fromAgent w)))
          = filter (\<lambda>s. s_executionId s = executionId) (rfqSnapshots w)"
    and "filter (\<lambda>ev. ev_executionId ev = executionId) (events (snd (replay executionId fromAgent w)))
          = filter (\<lambda>ev. ev_executionId ev = executionId) (events w)"
  using assms find_Some_mem [of executionId "executions w" original]
  by (auto simp: replay_def execution_create_def createSnapshot_def rfqSnapshot_create_def
        save_def event_create_def enqueue_def io_defs Let_def execution_findUnique_def find_snoc
      split: option.splits if_splits)

lemma replay_fork:
  assumes "execution_findUnique executionId w = Some original"
      and "fromAgent \<in> set AGENT_PIPELINE"
      and "uuids w (uuid_reads w) \<notin> set (map e_id (executions w))"
  shows "execution_findUnique (uuids w (uuid_reads w)) (snd (replay executionId fromAgent w)) =
           Some \<lparr>e_id = uuids w (uuid_reads w), e_emailId = e_emailId original,
                  e_externalRef = e_externalRef original, e_status = PENDING,
                  e_currentAgent = Some fromAgent,
                  e_metadata =
                    JObj (set_prop ''replayedFromAgent'' (JStr fromAgent)
                           (set_prop ''replayedFrom'' (JStr executionId)
                             (spread [] (or_empty (e_metadata original))))),
                  e_createdAt = clock w (clock_reads w), e_updatedAt = clock w (clock_reads w),
                  e_completedAt = None\<rparr>"
  using assms find_None_notin [of "uuids w (uuid_reads w)" "executions w"]
  by (auto simp: replay_def execution_create_def createSnapshot_def rfqSnapshot_create_def
        save_def event_create_def enqueue_def io_defs Let_def execution_findUnique_def find_snoc
      split: option.splits if_splits)

lemma replay_seed:
  assumes "execution_findUnique executionId w = Some original"
      and "fromAgent \<in> set AGENT_PIPELINE"
      and "uuids w (uuid_reads w) \<notin> set (map e_id (executions w))"
      and "uuids w (Suc (uuid_reads w)) \<notin> set (map s_id (rfqSnapshots w))"
      and "first_by_createdAt_desc w
             (filter (\<lambda>s. s_executionId s = executionId \<and> s_agentName s = fromAgent
                           \<and> s_snapshotType s = INPUT) (rfqSnapshots w)) = Some src"
  shows "rfqSnapshots (snd (replay executionId fromAgent w)) =
           rfqSnapshots w @
             [\<lparr>s_id = uuids w (Suc (uuid_reads w)), s_executionId = uuids w (uuid_reads w),
               s_agentName = fromAgent, s_snapshotType = INPUT, s_data = s_data src,
               s_createdAt = clock w (Suc (clock_reads w))\<rparr>]"
  using assms
  by (auto simp: replay_def execution_create_def createSnapshot_def rfqSnapshot_create_def
        save_def event_create_def enqueue_def io_defs Let_def
      split: option.splits if_splits)


text \<open>
  C7. For every existing Execution, \<open>replay\<close> leaves the original as it was: its row
  (status, current stage and every other column), its Snapshots and its Events are the same
  afterwards, however the call ends. For a stage of the pipeline, once the generated
  identifier is not taken, the world holds a new Execution under it, in status
  \<open>PENDING\<close>, with the current stage \<open>fromAgent\<close>, for the same email, whose metadata
  reads \<open>replayedFrom\<close> as the original's id; and if the original has an
  \<open>INPUT\<close> Snapshot for \<open>fromAgent\<close>, exactly one Snapshot is added, for the new
  Execution, of type \<open>INPUT\<close> for \<open>fromAgent\<close>, whose data is that of one of those
  Snapshots (the latest by \<open>createdAt\<close>).
\<close>

theorem replay_forks_and_leaves_original:
  fixes w :: world and executionId :: string and fromAgent :: string
  defines "w' \<equiv> snd (replay executionId fromAgent w)"
      and "newId \<equiv> uuids w (uuid_reads w)"
      and "inputs \<equiv> filter (\<lambda>s. s_executionId s = executionId \<and> s_agentName s = fromAgent
                                  \<and> s_snapshotType s = INPUT) (rfqSnapshots w)"
  assumes found: "execution_findUnique executionId w = Some original"
  shows "execution_findUnique executionId w' = Some original
       \<and> filter (\<lambda>s. s_executionId s = executionId) (rfqSnapshots w')
           = filter (\<lambda>s. s_executionId s = executionId) (rfqSnapshots w)
       \<and> filter (\<lambda>ev. ev_executionId ev = executionId) (events w')
           = filter (\<lambda>ev. ev_executionId ev = executionId) (events w)
       \<and> (fromAgent \<in> set AGENT_PIPELINE \<longrightarrow> newId \<notin> set (map e_id (executions w)) \<longrightarrow>
            (\<exists>new. execution_findUnique newId w' = Some new
                  \<and> e_status new = PENDING
                  \<and> e_currentAgent new = Some fromAgent
                  \<and> e_emailId new = e_emailId original
                  \<and> get_prop (own_props (e_metadata new)) ''replayedFrom'' = JStr executionId)
          \<and> (inputs \<noteq> [] \<longrightarrow>
              uuids w (Suc (uuid_reads w)) \<notin> set (map s_id (rfqSnapshots w)) \<longrightarrow>
                (\<exists>src. src \<in> set inputs
                   \<and> rfqSnapshots w' =
                       rfqSnapshots w @
                         [\<lparr>s_id = uuids w (Suc (uuid_reads w)), s_executionId = newId,
                           s_agentName = fromAgent, s_snapshotType = INPUT,
                           s_data = s_data src,
                           s_createdAt = clock w (Suc (clock_reads w))\<rparr>])))"
proof (intro conjI impI)
  show "execution_findUnique executionId w' = Some original"
    unfolding w'_def by (rule replay_frame(1) [OF found])
  show "filter (\<lambda>s. s_executionId s = executionId) (rfqSnapshots w')
           = filter (\<lambda>s. s_executionId s = executionId) (rfqSnapshots w)"
    unfolding w'_def by (rule replay_frame(2) [OF found])
  show "filter (\<lambda>ev. ev_executionId ev = executionId) (events w')
           = filter (\<lambda>ev. ev_executionId ev = executionId) (events w)"
    unfolding w'_def by (rule replay_frame(3) [OF found])
next
  assume stage: "fromAgent \<in> set AGENT_PIPELINE"
    and fresh: "newId \<notin> set (map e_id (executions w))"
  from fresh have fresh': "uuids w (uuid_reads w) \<notin> set (map e_id (executions w))"
    by (simp add: newId_def)
  show "\<exists>new. execution_findUnique newId w' = Some new
                  \<and> e_status new = PENDING
                  \<and> e_currentAgent new = Some fromAgent
                  \<and> e_emailId new = e_emailId original
                  \<and> get_prop (own_props (e_metadata new)) ''replayedFrom'' = JStr executionId"
    unfolding w'_def newId_def
    by (simp add: replay_fork [OF found stage fresh'] get_set_prop)
next
  assume stage: "fromAgent \<in> set AGENT_PIPELINE"
    and fresh: "newId \<notin> set (map e_id (executions w))"
    and some: "inputs \<noteq> []"
    and snapshot_id: "uuids w (Suc (uuid_reads w)) \<notin> set (map s_id (rfqSnapshots w))"
  from fresh have fresh': "uuids w (uuid_reads w) \<notin> set (map e_id (executions w))"
    by (simp add: newId_def)
  from first_by_createdAt_desc_mem [OF some, of w]
  obtain src where src: "src \<in> set inputs" "first_by_createdAt_desc w inputs = Some src"
    by blast
  have "rfqSnapshots w' =
          rfqSnapshots w @
            [\<lparr>s_id = uuids w (Suc (uuid_reads w)), s_executionId = newId,
              s_agentName = fromAgent, s_snapshotType = INPUT, s_data = s_data src,
              s_createdAt = clock w (Suc (clock_reads w))\<rparr>]"
    unfolding w'_def newId_def
    by (rule replay_seed [OF found stage fresh' snapshot_id src(2) [unfolded inputs_def]])
  with src(1) show "\<exists>src. src \<in> set inputs
                   \<and> rfqSnapshots w' =
                       rfqSnapshots w @
                         [\<lparr>s_id = uuids w (Suc (uuid_reads w)), s_executionId = newId,
                           s_agentName = fromAgent, s_snapshotType = INPUT,
                           s_data = s_data src,
                           s_createdAt = clock w (Suc (clock_reads w))\<rparr>]"
    by blast
qed

theorem replay_forks_and_leaves_original_witness:
  "execution_findUnique ''e1''
     (snd (replay ''e1'' ''duplicate''
        (fixture_world\<lparr>executions := [fixture_execution ''e1'' COMPLETED],
           rfqSnapshots := [fixture_snapshot ''s1'' ''duplicate'' INPUT
                              [(''priority'', JStr ''HIGH'')] 700]\<rparr>)))
     = Some (fixture_execution ''e1'' COMPLETED)
   \<and> map s_data (rfqSnapshots
       (snd (replay ''e1'' ''duplicate''
          (fixture_world\<lparr>executions := [fixture_execution ''e1'' COMPLETED],
             rfqSnapshots := [fixture_snapshot ''s1'' ''duplicate'' INPUT
                                [(''priority'', JStr ''HIGH'')] 700]\<rparr>))))
     = [[(''priority'', JStr ''HIGH'')], [(''priority'', JStr ''HIGH'')]]
   \<and> map_option e_status (execution_findUnique ''u0''
       (snd (replay ''e1'' ''duplicate''
          (fixture_world\<lparr>executions := [fixture_execution ''e1'' COMPLETED],
             rfqSnapshots := [fixture_snapshot ''s1'' ''duplicate'' INPUT
                                [(''priority'', JStr ''HIGH'')] 700]\<rparr>))))
     = Some PENDING"
proof -
  let ?s1 = "fixture_snapshot ''s1'' ''duplicate'' INPUT [(''priority'', JStr ''HIGH'')] 700"
  let ?w = "fixture_world\<lparr>executions := [fixture_execution ''e1'' COMPLETED],
              rfqSnapshots := [?s1]\<rparr>"
  have found: "execution_findUnique ''e1'' ?w = Some (fixture_execution ''e1'' COMPLETED)"
    by (simp add: execution_findUnique_def fixture_execution_def)
  have stage: "''duplicate'' \<in> set AGENT_PIPELINE"
    by (simp add: AGENT_PIPELINE_def)
  have new_id: "uuids ?w (uuid_reads ?w) = ''u0''"
    "uuids ?w (uuid_reads ?w) \<notin> set (map e_id (executions ?w))"
    by (simp_all add: fixture_defs eval_defs)
  have seed_id: "uuids ?w (Suc (uuid_reads ?w)) \<notin> set (map s_id (rfqSnapshots ?w))"
    by (simp add: fixture_defs eval_defs)
  have inputs: "filter (\<lambda>s. s_executionId s = ''e1'' \<and> s_agentName s = ''duplicate''
                               \<and> s_snapshotType s = INPUT) (rfqSnapshots ?w) = [?s1]"
    by (simp add: fixture_snapshot_def)
  note fork = replay_forks_and_leaves_original
    [where w = ?w and executionId = "''e1''" and fromAgent = "''duplicate''", OF found]
  have "execution_findUnique ''e1'' (snd (replay ''e1'' ''duplicate'' ?w))
          = Some (fixture_execution ''e1'' COMPLETED)"
    using fork by blast
  moreover have "map s_data (rfqSnapshots (snd (replay ''e1'' ''duplicate'' ?w)))
          = [[(''priority'', JStr ''HIGH'')], [(''priority'', JStr ''HIGH'')]]"
  proof -
    have "\<exists>src. src \<in> set [?s1]
            \<and> rfqSnapshots (snd (replay ''e1'' ''duplicate'' ?w)) =
                rfqSnapshots ?w @
                  [\<lparr>s_id = uuids ?w (Suc (uuid_reads ?w)), s_executionId = uuids ?w (uuid_reads ?w),
                    s_agentName = ''duplicate'', s_snapshotType = INPUT,
                    s_data = s_data src,
                    s_createdAt = clock ?w (Suc (clock_reads ?w))\<rparr>]"
      using fork stage new_id(2) seed_id unfolding inputs by blast
    then show ?thesis
      by (auto simp: fixture_snapshot_def)
  qed
  moreover have "map_option e_status (execution_findUnique ''u0''
                   (snd (replay ''e1'' ''duplicate'' ?w))) = Some PENDING"
    using fork stage new_id(2) unfolding new_id(1)
    by auto
  ultimately show ?thesis
    by blast
qed


section \<open>Claims about resume\<close>






section \<open>Claims about the stage worker\<close>

lemma handleNextAction_effects:
  assumes "execution_findUnique executionId w = Some row"
  shows "agentTasks (snd (handleNextAction executionId execution nextAction w)) = agentTasks w"
    and "rfqSnapshots (snd (handleNextAction executionId execution nextAction w)) = rfqSnapshots w"
    and "map_option e_status
           (execution_findUnique executionId
              (snd (handleNextAction executionId execution nextAction w))) =
         Some (case nextAction of
                 CONTINUE nextAgent \<Rightarrow> e_status row
               | SKIP reason nextAgent \<Rightarrow> e_status row
               | AWAIT_HUMAN reason requiredFields \<Rightarrow> AWAITING_HUMAN
               | COMPLETE \<Rightarrow> COMPLETED
               | FAIL err \<Rightarrow> FAILED)"
    and "map_option e_completedAt
           (execution_findUnique executionId
              (snd (handleNextAction executionId execution nextAction w))) =
         Some (case nextAction of
                 COMPLETE \<Rightarrow> Some (clock w (clock_reads w))
               | _ \<Rightarrow> e_completedAt row)"
  using assms
  by (cases nextAction;
      auto simp: handleNextAction_def execution_findUnique_def execution_update_def
        save_def event_create_def enqueue_def io_defs find_map_update_Some
      split: option.splits)+

lemma createAgentWorker_missing:
  assumes "execution_findUnique (j_executionId job) w = None"
  shows "createAgentWorker agent agentName job w = (Inl (PrismaError ''P2025''), w)"
  using assms by (simp add: createAgentWorker_def io_defs)

lemma createAgentWorker_agent:
  "createAgentWorker agent agentName job w =
     createAgentWorker
       (\<lambda>_. agent \<lparr>c_executionId = j_executionId job,
                     c_emailId = (case execution_findUnique (j_executionId job) w of
                                    None \<Rightarrow> [] | Some e \<Rightarrow> e_emailId e),
                     c_currentState =
                       (case first_by_createdAt_desc w
                               (filter (\<lambda>s. s_executionId s = j_executionId job)
                                  (rfqSnapshots w)) of
                          None \<Rightarrow> [] | Some s \<Rightarrow> s_data s),
                     c_attempt = j_attemptsMade job + 1\<rparr>)
       agentName job w"
  by (simp add: createAgentWorker_def Let_def split: option.splits)

lemma filter_task_id_fresh:
  "i \<notin> set (map t_id tasks) \<Longrightarrow> filter (\<lambda>a. t_id a = i) tasks = []"
  by (induction tasks) auto

lemma map_e_id_update:
  "map e_id (map (\<lambda>x. if e_id x = i then x\<lparr>e_status := st, e_updatedAt := t\<rparr> else x) xs) =
     map e_id xs"
  by (induction xs) auto

lemma createAgentWorker_prefix:
  assumes f: "find (\<lambda>e. e_id e = j_executionId job) (executions w) = Some execution"
      and attempt: "int4 (int (j_attemptsMade job + 1))"
      and fits: "metadata_columns result"
      and task_id: "uuids w (uuid_reads w) \<notin> set (map t_id (agentTasks w))"
      and snapshot_id: "uuids w (Suc (uuid_reads w)) \<notin> set (map s_id (rfqSnapshots w))"
      and event_ids: "distinct (map d_id (r_events result))"
        "set (map d_id (r_events result)) \<inter> set (map ev_id (events w)) = {}"
  shows "\<exists>w5.
      createAgentWorker (\<lambda>_. result) agentName job w =
        io_bind (handleNextAction (j_executionId job) execution (r_nextAction result))
          (\<lambda>_. io_return result) w5
      \<and> executions w5 = map (\<lambda>x. if e_id x = j_executionId job
                                     then x\<lparr>e_status := PROCESSING,
                                            e_updatedAt := clock w (clock_reads w)\<rparr>
                                     else x) (executions w)
      \<and> length (agentTasks w5) = Suc (length (agentTasks w))
      \<and> rfqSnapshots w5 = rfqSnapshots w @
               [\<lparr>s_id = uuids w (Suc (uuid_reads w)), s_executionId = j_executionId job,
                 s_agentName = agentName, s_snapshotType = OUTPUT,
                 s_data = mergeState
                            (case first_by_createdAt_desc w
                                    (filter (\<lambda>s. s_executionId s = j_executionId job)
                                       (rfqSnapshots w)) of
                               None \<Rightarrow> [] | Some s \<Rightarrow> s_data s)
                            (r_outputState result),
                 s_createdAt = clock w (Suc (Suc (Suc (clock_reads w))))\<rparr>]
      \<and> clock w5 = clock w
      \<and> clock_reads w5 = Suc (Suc (Suc (Suc (Suc (clock_reads w)))))"
proof -
  define evs where "evs = map (\<lambda>e. \<lparr>ev_id = d_id e, ev_executionId = j_executionId job,
                             ev_agentTaskId = Some (uuids w (uuid_reads w)),
                             ev_eventType = d_eventType e,
                             ev_eventData = d_eventData e,
                             ev_createdAt = d_createdAt e\<rparr>) (r_events result)"
  have "map ev_id evs = map d_id (r_events result)"
    by (simp add: evs_def comp_def)
  with event_ids have many: "\<And>w'. events w' = events w \<Longrightarrow>
      saveMany evs w' = (Inr (length evs), w'\<lparr>events := events w' @ evs\<rparr>)"
    by (simp add: saveMany_fresh)
  from f have known: "j_executionId job \<in> set (map e_id (executions w))"
    by (rule find_Some_mem)
  from task_id
  have none: "filter (\<lambda>a. t_id a = uuids w (uuid_reads w)) (agentTasks w) = []"
    by (rule filter_task_id_fresh)
  obtain md where md: "r_metadata result = md"
    by simp
  have goal: ?thesis
    if "r_metadata result = md"
      and "case md of None \<Rightarrow> True
           | Some m \<Rightarrow> (case m_durationMs m of None \<Rightarrow> True | Some d \<Rightarrow> int4 d)
                      \<and> (case m_costUsd m of None \<Rightarrow> True | Some c \<Rightarrow> decimal_10_6 c)"
      and "md = None \<or> (\<exists>du tu co. md = Some \<lparr>m_durationMs = du, m_tokenUsage = tu,
                                                  m_costUsd = co\<rparr>
                          \<and> (du = None \<or> (\<exists>d. du = Some d))
                          \<and> (co = None \<or> (\<exists>c. co = Some c)))"
    using that(3)
  proof (elim disjE exE conjE)
    assume "md = None"
    with that(1) have m: "r_metadata result = None" by simp
    show ?thesis
      unfolding createAgentWorker_def
      using f known task_id snapshot_id attempt
      apply (simp add: execution_findUnique_def execution_update_def agentTask_create_def
              createSnapshot_def rfqSnapshot_create_def io_defs Let_def evs_def [symmetric]
              agentTask_columns_def map_e_id_update
            split del: if_split del: map_map)
      apply (simp add: many agentTask_update_def agentTask_columns_def none m io_defs
            split del: if_split)
      apply (intro exI conjI)
           apply (rule refl)
          apply simp_all
      done
  next
    fix du tu co
    assume "md = Some \<lparr>m_durationMs = du, m_tokenUsage = tu, m_costUsd = co\<rparr>"
      and "du = None" and "co = None"
    with that(1) have m: "r_metadata result = Some \<lparr>m_durationMs = None, m_tokenUsage = tu,
                                                m_costUsd = None\<rparr>" by simp
    show ?thesis
      unfolding createAgentWorker_def
      using f known task_id snapshot_id attempt
      apply (simp add: execution_findUnique_def execution_update_def agentTask_create_def
              createSnapshot_def rfqSnapshot_create_def io_defs Let_def evs_def [symmetric]
              agentTask_columns_def map_e_id_update
            split del: if_split del: map_map)
      apply (simp add: many agentTask_update_def agentTask_columns_def none m io_defs
            split del: if_split)
      apply (intro exI conjI)
           apply (rule refl)
          apply simp_all
      done
  next
    fix du tu co c
    assume "md = Some \<lparr>m_durationMs = du, m_tokenUsage = tu, m_costUsd = co\<rparr>"
      and "du = None" and "co = Some c"
    with that(1,2) have m: "r_metadata result = Some \<lparr>m_durationMs = None, m_tokenUsage = tu,
                                                m_costUsd = Some c\<rparr>"
      and ok: "decimal_10_6 c" by simp_all
    show ?thesis
      unfolding createAgentWorker_def
      using f known task_id snapshot_id attempt ok
      apply (simp add: execution_findUnique_def execution_update_def agentTask_create_def
              createSnapshot_def rfqSnapshot_create_def io_defs Let_def evs_def [symmetric]
              agentTask_columns_def map_e_id_update
            split del: if_split del: map_map)
      apply (simp add: many agentTask_update_def agentTask_columns_def none m io_defs
            split del: if_split)
      apply (intro exI conjI)
           apply (rule refl)
          apply simp_all
      done
  next
    fix du tu co d
    assume "md = Some \<lparr>m_durationMs = du, m_tokenUsage = tu, m_costUsd = co\<rparr>"
      and "du = Some d" and "co = None"
    with that(1,2) have m: "r_metadata result = Some \<lparr>m_durationMs = Some d, m_tokenUsage = tu,
                                                m_costUsd = None\<rparr>"
      and ok: "int4 d" by simp_all
    show ?thesis
      unfolding createAgentWorker_def
      using f known task_id snapshot_id attempt ok
      apply (simp add: execution_findUnique_def execution_update_def agentTask_create_def
              createSnapshot_def rfqSnapshot_create_def io_defs Let_def evs_def [symmetric]
              agentTask_columns_def map_e_id_update
            split del: if_split del: map_map)
      apply (simp add: many agentTask_update_def agentTask_columns_def none m io_defs
            split del: if_split)
      apply (intro exI conjI)
           apply (rule refl)
          apply simp_all
      done
  next
    fix du tu co d c
    assume "md = Some \<lparr>m_durationMs = du, m_tokenUsage = tu, m_costUsd = co\<rparr>"
      and "du = Some d" and "co = Some c"
    with that(1,2) have m: "r_metadata result = Some \<lparr>m_durationMs = Some d, m_tokenUsage = tu,
                                                m_costUsd = Some c\<rparr>"
      and ok: "int4 d" "decimal_10_6 c" by simp_all
    show ?thesis
      unfolding createAgentWorker_def
      using f known task_id snapshot_id attempt ok
      apply (simp add: execution_findUnique_def execution_update_def agentTask_create_def
              createSnapshot_def rfqSnapshot_create_def io_defs Let_def evs_def [symmetric]
              agentTask_columns_def map_e_id_update
            split del: if_split del: map_map)
      apply (simp add: many agentTask_update_def agentTask_columns_def none m io_defs
            split del: if_split)
      apply (intro exI conjI)
           apply (rule refl)
          apply simp_all
      done
  qed
  have shape: "md = None \<or> (\<exists>du tu co. md = Some \<lparr>m_durationMs = du, m_tokenUsage = tu,
                                                  m_costUsd = co\<rparr>
                          \<and> (du = None \<or> (\<exists>d. du = Some d))
                          \<and> (co = None \<or> (\<exists>c. co = Some c)))"
  proof (cases md)
    case None
    then show ?thesis by simp
  next
    case (Some m)
    then show ?thesis by (cases m) auto
  qed
  from fits md have cols: "case md of None \<Rightarrow> True
           | Some m \<Rightarrow> (case m_durationMs m of None \<Rightarrow> True | Some d \<Rightarrow> int4 d)
                      \<and> (case m_costUsd m of None \<Rightarrow> True | Some c \<Rightarrow> decimal_10_6 c)"
    by (simp add: metadata_columns_def)
  from md cols shape show ?thesis
    by (rule goal)
qed

lemma createAgentWorker_out_of_range:
  assumes found: "execution_findUnique (j_executionId job) w = Some execution"
      and result: "result =
             agent \<lparr>c_executionId = j_executionId job, c_emailId = e_emailId execution,
                     c_currentState =
                       (case first_by_createdAt_desc w
                               (filter (\<lambda>s. s_executionId s = j_executionId job)
                                  (rfqSnapshots w)) of
                          None \<Rightarrow> [] | Some s \<Rightarrow> s_data s),
                     c_attempt = j_attemptsMade job + 1\<rparr>"
      and attempt: "int4 (int (j_attemptsMade job + 1))"
      and unfit: "\<not> metadata_columns result"
      and task_id: "uuids w (uuid_reads w) \<notin> set (map t_id (agentTasks w))"
      and snapshot_id: "uuids w (Suc (uuid_reads w)) \<notin> set (map s_id (rfqSnapshots w))"
      and event_ids: "distinct (map d_id (r_events result))"
        "set (map d_id (r_events result)) \<inter> set (map ev_id (events w)) = {}"
  shows "fst (createAgentWorker agent agentName job w) = Inl (PrismaError ''P2020'')"
    and "map_option e_status
           (execution_findUnique (j_executionId job)
              (snd (createAgentWorker agent agentName job w))) = Some PROCESSING"
    and "length (rfqSnapshots (snd (createAgentWorker agent agentName job w))) =
           Suc (length (rfqSnapshots w))"
proof -
  have f: "find (\<lambda>e. e_id e = j_executionId job) (executions w) = Some execution"
    using found by (simp add: execution_findUnique_def)
  have const: "createAgentWorker agent agentName job w =
                 createAgentWorker (\<lambda>_. result) agentName job w"
    by (subst createAgentWorker_agent) (simp add: result found)
  define evs where "evs = map (\<lambda>e. \<lparr>ev_id = d_id e, ev_executionId = j_executionId job,
                                    ev_agentTaskId = Some (uuids w (uuid_reads w)),
                                    ev_eventType = d_eventType e, ev_eventData = d_eventData e,
                                    ev_createdAt = d_createdAt e\<rparr>) (r_events result)"
  have "map ev_id evs = map d_id (r_events result)"
    by (simp add: evs_def comp_def)
  with event_ids have many: "\<And>w'. events w' = events w \<Longrightarrow>
      saveMany evs w' = (Inr (length evs), w'\<lparr>events := events w' @ evs\<rparr>)"
    by (simp add: saveMany_fresh)
  from f have known: "j_executionId job \<in> set (map e_id (executions w))"
    by (rule find_Some_mem)
  from task_id
  have none: "filter (\<lambda>a. t_id a = uuids w (uuid_reads w)) (agentTasks w) = []"
    by (rule filter_task_id_fresh)
  from unfit obtain m where m: "r_metadata result = Some m"
    and bad: "(\<exists>d. m_durationMs m = Some d \<and> \<not> int4 d)
            \<or> (\<exists>c. m_costUsd m = Some c \<and> \<not> decimal_10_6 c)"
    by (auto simp: metadata_columns_def split: option.splits)
  have "\<exists>w5. createAgentWorker (\<lambda>_. result) agentName job w = (Inl (PrismaError ''P2020''), w5)
        \<and> executions w5 = map (\<lambda>x. if e_id x = j_executionId job
                                    then x\<lparr>e_status := PROCESSING,
                                           e_updatedAt := clock w (clock_reads w)\<rparr>
                                    else x) (executions w)
        \<and> length (rfqSnapshots w5) = Suc (length (rfqSnapshots w))"
    using bad
  proof (elim disjE exE conjE)
    fix d
    assume d: "m_durationMs m = Some d" "\<not> int4 d"
    show ?thesis
      unfolding createAgentWorker_def
      using f known task_id snapshot_id attempt
      apply (simp add: execution_findUnique_def execution_update_def agentTask_create_def
              createSnapshot_def rfqSnapshot_create_def io_defs Let_def evs_def [symmetric]
              agentTask_columns_def map_e_id_update
            split del: if_split del: map_map)
      apply (simp add: many agentTask_update_def agentTask_columns_def none m d io_defs
            split del: if_split)
      done
  next
    fix c
    assume c: "m_costUsd m = Some c" "\<not> decimal_10_6 c"
    show ?thesis
      unfolding createAgentWorker_def
      using f known task_id snapshot_id attempt
      apply (simp add: execution_findUnique_def execution_update_def agentTask_create_def
              createSnapshot_def rfqSnapshot_create_def io_defs Let_def evs_def [symmetric]
              agentTask_columns_def map_e_id_update
            split del: if_split del: map_map)
      apply (simp add: many agentTask_update_def agentTask_columns_def none m c io_defs
            split del: if_split)
      done
  qed
  then obtain w5 where run: "createAgentWorker (\<lambda>_. result) agentName job w =
        (Inl (PrismaError ''P2020''), w5)"
    and rows: "executions w5 = map (\<lambda>x. if e_id x = j_executionId job
                                     then x\<lparr>e_status := PROCESSING,
                                            e_updatedAt := clock w (clock_reads w)\<rparr>
                                     else x) (executions w)"
    and snaps: "length (rfqSnapshots w5) = Suc (length (rfqSnapshots w))"
    by blast
  show "fst (createAgentWorker agent agentName job w) = Inl (PrismaError ''P2020'')"
    by (simp add: const run)
  show "map_option e_status
           (execution_findUnique (j_executionId job)
              (snd (createAgentWorker agent agentName job w))) = Some PROCESSING"
    using f by (simp add: const run execution_findUnique_def rows find_map_update_Some)
  show "length (rfqSnapshots (snd (createAgentWorker agent agentName job w))) =
           Suc (length (rfqSnapshots w))"
    by (simp add: const run snaps)
qed

lemma createAgentWorker_effects:
  assumes found: "execution_findUnique (j_executionId job) w = Some execution"
      and result: "result =
             agent \<lparr>c_executionId = j_executionId job, c_emailId = e_emailId execution,
                     c_currentState =
                       (case first_by_createdAt_desc w
                               (filter (\<lambda>s. s_executionId s = j_executionId job)
                                  (rfqSnapshots w)) of
                          None \<Rightarrow> [] | Some s \<Rightarrow> s_data s),
                     c_attempt = j_attemptsMade job + 1\<rparr>"
      and attempt: "int4 (int (j_attemptsMade job + 1))"
      and fits: "metadata_columns result"
      and task_id: "uuids w (uuid_reads w) \<notin> set (map t_id (agentTasks w))"
      and snapshot_id: "uuids w (Suc (uuid_reads w)) \<notin> set (map s_id (rfqSnapshots w))"
      and event_ids: "distinct (map d_id (r_events result))"
        "set (map d_id (r_events result)) \<inter> set (map ev_id (events w)) = {}"
  shows "length (agentTasks (snd (createAgentWorker agent agentName job w))) =
           Suc (length (agentTasks w))"
    and "rfqSnapshots (snd (createAgentWorker agent agentName job w)) =
           rfqSnapshots w @
             [\<lparr>s_id = uuids w (Suc (uuid_reads w)), s_executionId = j_executionId job,
               s_agentName = agentName, s_snapshotType = OUTPUT,
               s_data = mergeState
                          (case first_by_createdAt_desc w
                                  (filter (\<lambda>s. s_executionId s = j_executionId job)
                                     (rfqSnapshots w)) of
                             None \<Rightarrow> [] | Some s \<Rightarrow> s_data s)
                          (r_outputState result),
               s_createdAt = clock w (Suc (Suc (Suc (clock_reads w))))\<rparr>]"
    and "map_option e_status
           (execution_findUnique (j_executionId job)
              (snd (createAgentWorker agent agentName job w))) =
         Some (case r_nextAction result of
                 CONTINUE nextAgent \<Rightarrow> PROCESSING
               | SKIP reason nextAgent \<Rightarrow> PROCESSING
               | AWAIT_HUMAN reason requiredFields \<Rightarrow> AWAITING_HUMAN
               | COMPLETE \<Rightarrow> COMPLETED
               | FAIL err \<Rightarrow> FAILED)"
    and "map_option e_completedAt
           (execution_findUnique (j_executionId job)
              (snd (createAgentWorker agent agentName job w))) =
         Some (case r_nextAction result of
                 COMPLETE \<Rightarrow> Some (clock w (Suc (Suc (Suc (Suc (Suc (clock_reads w)))))))
               | _ \<Rightarrow> e_completedAt execution)"
proof -
  have f: "find (\<lambda>e. e_id e = j_executionId job) (executions w) = Some execution"
    using found by (simp add: execution_findUnique_def)
  have const: "createAgentWorker agent agentName job w =
                 createAgentWorker (\<lambda>_. result) agentName job w"
    by (subst createAgentWorker_agent) (simp add: result found)
  from createAgentWorker_prefix [OF f attempt fits task_id snapshot_id event_ids, of agentName]
  obtain w5 where run: "createAgentWorker (\<lambda>_. result) agentName job w =
        io_bind (handleNextAction (j_executionId job) execution (r_nextAction result))
          (\<lambda>_. io_return result) w5"
    and rows: "executions w5 = map (\<lambda>x. if e_id x = j_executionId job
                                     then x\<lparr>e_status := PROCESSING,
                                            e_updatedAt := clock w (clock_reads w)\<rparr>
                                     else x) (executions w)"
    and tasks: "length (agentTasks w5) = Suc (length (agentTasks w))"
    and snaps: "rfqSnapshots w5 = rfqSnapshots w @
             [\<lparr>s_id = uuids w (Suc (uuid_reads w)), s_executionId = j_executionId job,
               s_agentName = agentName, s_snapshotType = OUTPUT,
               s_data = mergeState
                          (case first_by_createdAt_desc w
                                  (filter (\<lambda>s. s_executionId s = j_executionId job)
                                     (rfqSnapshots w)) of
                             None \<Rightarrow> [] | Some s \<Rightarrow> s_data s)
                          (r_outputState result),
               s_createdAt = clock w (Suc (Suc (Suc (clock_reads w))))\<rparr>]"
    and clk: "clock w5 = clock w" "clock_reads w5 = Suc (Suc (Suc (Suc (Suc (clock_reads w)))))"
    by blast
  define row where "row = execution\<lparr>e_status := PROCESSING, e_updatedAt := clock w (clock_reads w)\<rparr>"
  have row: "execution_findUnique (j_executionId job) w5 = Some row"
    using f by (simp add: execution_findUnique_def rows find_map_update_Some row_def)
  have snd_run: "snd (createAgentWorker agent agentName job w) =
      snd (handleNextAction (j_executionId job) execution (r_nextAction result) w5)"
    by (simp add: const run io_defs split: prod.splits sum.splits)
  show "length (agentTasks (snd (createAgentWorker agent agentName job w))) =
           Suc (length (agentTasks w))"
    by (simp add: snd_run handleNextAction_effects(1) [OF row] tasks)
  show "rfqSnapshots (snd (createAgentWorker agent agentName job w)) =
           rfqSnapshots w @
             [\<lparr>s_id = uuids w (Suc (uuid_reads w)), s_executionId = j_executionId job,
               s_agentName = agentName, s_snapshotType = OUTPUT,
               s_data = mergeState
                          (case first_by_createdAt_desc w
                                  (filter (\<lambda>s. s_executionId s = j_executionId job)
                                     (rfqSnapshots w)) of
                             None \<Rightarrow> [] | Some s \<Rightarrow> s_data s)
                          (r_outputState result),
               s_createdAt = clock w (Suc (Suc (Suc (clock_reads w))))\<rparr>]"
    by (simp add: snd_run handleNextAction_effects(2) [OF row] snaps)
  show "map_option e_status
           (execution_findUnique (j_executionId job)
              (snd (createAgentWorker agent agentName job w))) =
         Some (case r_nextAction result of
                 CONTINUE nextAgent \<Rightarrow> PROCESSING
               | SKIP reason nextAgent \<Rightarrow> PROCESSING
               | AWAIT_HUMAN reason requiredFields \<Rightarrow> AWAITING_HUMAN
               | COMPLETE \<Rightarrow> COMPLETED
               | FAIL err \<Rightarrow> FAILED)"
    by (simp add: snd_run handleNextAction_effects(3) [OF row] row_def
          split: NextAction.splits)
  show "map_option e_completedAt
           (execution_findUnique (j_executionId job)
              (snd (createAgentWorker agent agentName job w))) =
         Some (case r_nextAction result of
                 COMPLETE \<Rightarrow> Some (clock w (Suc (Suc (Suc (Suc (Suc (clock_reads w)))))))
               | _ \<Rightarrow> e_completedAt execution)"
    by (simp add: snd_run handleNextAction_effects(4) [OF row] row_def clk
          split: NextAction.splits)
qed


text \<open>
  C1, as the code has it. The worker makes no check of the Execution's status or current
  stage. A job whose Execution does not exist ends in the error of the lookup and leaves
  the world as it was. For a job whose Execution exists, whatever its status and current
  stage (attempt number within the 32-bit column, generated identifiers and the stage's
  event identifiers not taken), there are two cases. When the duration and the cost that
  the stage reports fit the columns \<open>duration_ms\<close> and \<open>cost_usd\<close>, the worker
  records one more StageTask, appends one \<open>OUTPUT\<close> Snapshot holding \<open>mergeState\<close> of
  the current state and the stage's output, and leaves the Execution in the status that the
  stage's next action dictates: \<open>PROCESSING\<close> after \<open>CONTINUE\<close> and \<open>SKIP\<close>,
  \<open>AWAITING_HUMAN\<close>, \<open>COMPLETED\<close> or \<open>FAILED\<close>. When they do not fit, the
  update of the StageTask is refused: the job ends in the error \<open>P2020\<close>, with the
  Execution left \<open>PROCESSING\<close> and the \<open>OUTPUT\<close> Snapshot already written.
\<close>

theorem createAgentWorker_runs_whatever_the_status:
  fixes w :: world and job :: job and agent :: "AgentContext \<Rightarrow> AgentResult"
    and execution :: execution
  defines "currentState \<equiv>
             (case first_by_createdAt_desc w
                     (filter (\<lambda>s. s_executionId s = j_executionId job) (rfqSnapshots w)) of
                None \<Rightarrow> [] | Some s \<Rightarrow> s_data s)"
  defines "result \<equiv>
             agent \<lparr>c_executionId = j_executionId job, c_emailId = e_emailId execution,
                     c_currentState = currentState, c_attempt = j_attemptsMade job + 1\<rparr>"
  shows "(execution_findUnique (j_executionId job) w = None \<longrightarrow>
            createAgentWorker agent agentName job w = (Inl (PrismaError ''P2025''), w))
       \<and> (execution_findUnique (j_executionId job) w = Some execution \<longrightarrow>
          int4 (int (j_attemptsMade job + 1)) \<longrightarrow>
          uuids w (uuid_reads w) \<notin> set (map t_id (agentTasks w)) \<longrightarrow>
          uuids w (Suc (uuid_reads w)) \<notin> set (map s_id (rfqSnapshots w)) \<longrightarrow>
          distinct (map d_id (r_events result)) \<longrightarrow>
          set (map d_id (r_events result)) \<inter> set (map ev_id (events w)) = {} \<longrightarrow>
            (metadata_columns result \<longrightarrow>
               length (agentTasks (snd (createAgentWorker agent agentName job w))) =
                 Suc (length (agentTasks w))
             \<and> rfqSnapshots (snd (createAgentWorker agent agentName job w)) =
                 rfqSnapshots w @
                   [\<lparr>s_id = uuids w (Suc (uuid_reads w)), s_executionId = j_executionId job,
                     s_agentName = agentName, s_snapshotType = OUTPUT,
                     s_data = mergeState currentState (r_outputState result),
                     s_createdAt = clock w (Suc (Suc (Suc (clock_reads w))))\<rparr>]
             \<and> map_option e_status
                   (execution_findUnique (j_executionId job)
                      (snd (createAgentWorker agent agentName job w))) =
                 Some (case r_nextAction result of
                         CONTINUE nextAgent \<Rightarrow> PROCESSING
                       | SKIP reason nextAgent \<Rightarrow> PROCESSING
                       | AWAIT_HUMAN reason requiredFields \<Rightarrow> AWAITING_HUMAN
                       | COMPLETE \<Rightarrow> COMPLETED
                       | FAIL err \<Rightarrow> FAILED))
          \<and> (\<not> metadata_columns result \<longrightarrow>
               fst (createAgentWorker agent agentName job w) = Inl (PrismaError ''P2020'')
             \<and> map_option e_status
                   (execution_findUnique (j_executionId job)
                      (snd (createAgentWorker agent agentName job w))) = Some PROCESSING
             \<and> length (rfqSnapshots (snd (createAgentWorker agent agentName job w))) =
                 Suc (length (rfqSnapshots w))))"
proof (intro conjI impI)
  assume "execution_findUnique (j_executionId job) w = None"
  then show "createAgentWorker agent agentName job w = (Inl (PrismaError ''P2025''), w)"
    by (rule createAgentWorker_missing)
next
  assume found: "execution_findUnique (j_executionId job) w = Some execution"
    and attempt: "int4 (int (j_attemptsMade job + 1))"
    and fits: "metadata_columns result"
    and ids: "uuids w (uuid_reads w) \<notin> set (map t_id (agentTasks w))"
      "uuids w (Suc (uuid_reads w)) \<notin> set (map s_id (rfqSnapshots w))"
      "distinct (map d_id (r_events result))"
      "set (map d_id (r_events result)) \<inter> set (map ev_id (events w)) = {}"
  have r: "result =
             agent \<lparr>c_executionId = j_executionId job, c_emailId = e_emailId execution,
                     c_currentState =
                       (case first_by_createdAt_desc w
                               (filter (\<lambda>s. s_executionId s = j_executionId job)
                                  (rfqSnapshots w)) of
                          None \<Rightarrow> [] | Some s \<Rightarrow> s_data s),
                     c_attempt = j_attemptsMade job + 1\<rparr>"
    by (simp add: result_def currentState_def)
  note effects = createAgentWorker_effects
    [where agent = agent and job = job and w = w and execution = execution
       and result = result and agentName = agentName, OF found r attempt fits ids]
  show "length (agentTasks (snd (createAgentWorker agent agentName job w))) =
              Suc (length (agentTasks w))"
    by (rule effects(1))
  show "rfqSnapshots (snd (createAgentWorker agent agentName job w)) =
              rfqSnapshots w @
                [\<lparr>s_id = uuids w (Suc (uuid_reads w)), s_executionId = j_executionId job,
                  s_agentName = agentName, s_snapshotType = OUTPUT,
                  s_data = mergeState currentState (r_outputState result),
                  s_createdAt = clock w (Suc (Suc (Suc (clock_reads w))))\<rparr>]"
    using effects(2) by (simp add: currentState_def)
  show "map_option e_status
                (execution_findUnique (j_executionId job)
                   (snd (createAgentWorker agent agentName job w))) =
              Some (case r_nextAction result of
                      CONTINUE nextAgent \<Rightarrow> PROCESSING
                    | SKIP reason nextAgent \<Rightarrow> PROCESSING
                    | AWAIT_HUMAN reason requiredFields \<Rightarrow> AWAITING_HUMAN
                    | COMPLETE \<Rightarrow> COMPLETED
                    | FAIL err \<Rightarrow> FAILED)"
    by (rule effects(3))
next
  assume found: "execution_findUnique (j_executionId job) w = Some execution"
    and attempt: "int4 (int (j_attemptsMade job + 1))"
    and unfit: "\<not> metadata_columns result"
    and ids: "uuids w (uuid_reads w) \<notin> set (map t_id (agentTasks w))"
      "uuids w (Suc (uuid_reads w)) \<notin> set (map s_id (rfqSnapshots w))"
      "distinct (map d_id (r_events result))"
      "set (map d_id (r_events result)) \<inter> set (map ev_id (events w)) = {}"
  have r: "result =
             agent \<lparr>c_executionId = j_executionId job, c_emailId = e_emailId execution,
                     c_currentState =
                       (case first_by_createdAt_desc w
                               (filter (\<lambda>s. s_executionId s = j_executionId job)
                                  (rfqSnapshots w)) of
                          None \<Rightarrow> [] | Some s \<Rightarrow> s_data s),
                     c_attempt = j_attemptsMade job + 1\<rparr>"
    by (simp add: result_def currentState_def)
  note refused = createAgentWorker_out_of_range
    [where agent = agent and job = job and w = w and execution = execution
       and result = result and agentName = agentName, OF found r attempt unfit ids]
  show "fst (createAgentWorker agent agentName job w) = Inl (PrismaError ''P2020'')"
    by (rule refused(1))
  show "map_option e_status
          (execution_findUnique (j_executionId job)
             (snd (createAgentWorker agent agentName job w))) = Some PROCESSING"
    by (rule refused(2))
  show "length (rfqSnapshots (snd (createAgentWorker agent agentName job w))) =
          Suc (length (rfqSnapshots w))"
    by (rule refused(3))
qed

theorem createAgentWorker_runs_whatever_the_status_witness:
  "createAgentWorker continuing_agent ''intake'' fixture_job fixture_world
     = (Inl (PrismaError ''P2025''), fixture_world)
   \<and> map_option e_status
       (execution_findUnique ''e1''
          (snd (createAgentWorker continuing_agent ''intake'' fixture_job
                  (fixture_world\<lparr>executions := [fixture_execution ''e1'' CANCELLED]\<rparr>))))
     = Some PROCESSING
   \<and> length (agentTasks
        (snd (createAgentWorker continuing_agent ''intake'' fixture_job
                (fixture_world\<lparr>executions := [fixture_execution ''e1'' CANCELLED]\<rparr>))))
     = 1
   \<and> fst (createAgentWorker overlong_agent ''intake'' fixture_job
            (fixture_world\<lparr>executions := [fixture_execution ''e1'' CANCELLED]\<rparr>))
     = Inl (PrismaError ''P2020'')
   \<and> map_option e_status
       (execution_findUnique ''e1''
          (snd (createAgentWorker overlong_agent ''intake'' fixture_job
                  (fixture_world\<lparr>executions := [fixture_execution ''e1'' CANCELLED]\<rparr>))))
     = Some PROCESSING"
proof -
  let ?w = "fixture_world\<lparr>executions := [fixture_execution ''e1'' CANCELLED]\<rparr>"
  have missing: "execution_findUnique (j_executionId fixture_job) fixture_world = None"
    by (simp add: execution_findUnique_def fixture_defs)
  have found: "execution_findUnique (j_executionId fixture_job) ?w
               = Some (fixture_execution ''e1'' CANCELLED)"
    by (simp add: execution_findUnique_def fixture_defs)
  have attempt: "j_attemptsMade fixture_job = 0"
    by (simp add: fixture_job_def)
  have "createAgentWorker continuing_agent ''intake'' fixture_job fixture_world
     = (Inl (PrismaError ''P2025''), fixture_world)"
    using missing
      createAgentWorker_runs_whatever_the_status
        [where agent = continuing_agent and job = fixture_job and w = fixture_world
           and agentName = "''intake''"]
    by simp
  moreover have "map_option e_status
       (execution_findUnique (j_executionId fixture_job)
          (snd (createAgentWorker continuing_agent ''intake'' fixture_job ?w)))
     = Some PROCESSING
   \<and> length (agentTasks
        (snd (createAgentWorker continuing_agent ''intake'' fixture_job ?w))) = 1"
    using found
      createAgentWorker_runs_whatever_the_status
        [where agent = continuing_agent and job = fixture_job and w = ?w
           and execution = "fixture_execution ''e1'' CANCELLED"
           and agentName = "''intake''"]
    by (simp add: continuing_agent_def fixture_world_def attempt int4_def
          metadata_columns_def)
  moreover have "fst (createAgentWorker overlong_agent ''intake'' fixture_job ?w)
     = Inl (PrismaError ''P2020'')
   \<and> map_option e_status
       (execution_findUnique (j_executionId fixture_job)
          (snd (createAgentWorker overlong_agent ''intake'' fixture_job ?w)))
     = Some PROCESSING"
    using found
      createAgentWorker_runs_whatever_the_status
        [where agent = overlong_agent and job = fixture_job and w = ?w
           and execution = "fixture_execution ''e1'' CANCELLED"
           and agentName = "''intake''"]
    by (simp add: overlong_agent_def fixture_world_def attempt int4_def
          metadata_columns_def)
  ultimately show ?thesis
    by (simp add: fixture_job_def)
qed


text \<open>
  C1 as stated has a job against an Execution that is not \<open>PENDING\<close> or
  \<open>PROCESSING\<close> exit without side effects. A job of stage \<open>intake\<close> against a
  \<open>COMPLETED\<close> Execution sets it back to \<open>PROCESSING\<close> and records a StageTask.
\<close>

theorem createAgentWorker_completed_counterexample:
  "map_option e_status
     (execution_findUnique ''e1''
        (snd (createAgentWorker continuing_agent ''intake'' fixture_job
                (fixture_world\<lparr>executions := [fixture_execution ''e1'' COMPLETED]\<rparr>))))
     = Some PROCESSING
   \<and> length (agentTasks
        (snd (createAgentWorker continuing_agent ''intake'' fixture_job
                (fixture_world\<lparr>executions := [fixture_execution ''e1'' COMPLETED]\<rparr>))))
     = 1"
proof -
  let ?w = "fixture_world\<lparr>executions := [fixture_execution ''e1'' COMPLETED]\<rparr>"
  have found: "execution_findUnique (j_executionId fixture_job) ?w
                 = Some (fixture_execution ''e1'' COMPLETED)"
    by (simp add: fixture_found fixture_job_def)
  have attempt: "j_attemptsMade fixture_job = 0"
    by (simp add: fixture_job_def)
  have "map_option e_status
     (execution_findUnique (j_executionId fixture_job)
        (snd (createAgentWorker continuing_agent ''intake'' fixture_job ?w)))
     = Some PROCESSING"
    by (subst createAgentWorker_effects(3) [where agent = continuing_agent, OF found refl])
       (simp_all add: continuing_agent_def fixture_world_def attempt int4_def
          metadata_columns_def)
  moreover have "length (agentTasks
        (snd (createAgentWorker continuing_agent ''intake'' fixture_job ?w))) = 1"
    by (subst createAgentWorker_effects(1) [where agent = continuing_agent, OF found refl])
       (simp_all add: continuing_agent_def fixture_world_def attempt int4_def
          metadata_columns_def)
  ultimately show ?thesis
    by (simp add: fixture_job_def)
qed


text \<open>
  C2 at the \<open>FAIL\<close> branch of the worker. A job against a \<open>PENDING\<close> Execution whose
  stage fails leaves the Execution in status \<open>FAILED\<close> with \<open>completedAt\<close> still
  null: the branch writes the status and the error, not the completion time, which the
  \<open>COMPLETE\<close> branch, \<open>updateStatus\<close> and \<open>cancel\<close> all write. On the same
  Execution \<open>updateStatus\<close> to \<open>FAILED\<close> sets \<open>completedAt\<close> to the time read.
\<close>

theorem createAgentWorker_fail_completedAt_unset:
  "map_option e_status
     (execution_findUnique ''e1''
        (snd (createAgentWorker failing_agent ''intake'' fixture_job
                (fixture_world\<lparr>executions := [fixture_execution ''e1'' PENDING]\<rparr>))))
     = Some FAILED
   \<and> map_option e_completedAt
     (execution_findUnique ''e1''
        (snd (createAgentWorker failing_agent ''intake'' fixture_job
                (fixture_world\<lparr>executions := [fixture_execution ''e1'' PENDING]\<rparr>))))
     = Some None
   \<and> map_option e_completedAt
     (execution_findUnique ''e1''
        (snd (updateStatus ''e1'' FAILED None
                (fixture_world\<lparr>executions := [fixture_execution ''e1'' PENDING]\<rparr>))))
     = Some (Some 1000)"
proof -
  let ?w = "fixture_world\<lparr>executions := [fixture_execution ''e1'' PENDING]\<rparr>"
  have found: "execution_findUnique (j_executionId fixture_job) ?w
                 = Some (fixture_execution ''e1'' PENDING)"
    by (simp add: fixture_found fixture_job_def)
  have attempt: "j_attemptsMade fixture_job = 0"
    by (simp add: fixture_job_def)
  have sibling: "map_option e_completedAt
     (execution_findUnique ''e1'' (snd (updateStatus ''e1'' FAILED None ?w)))
     = Some (Some 1000)"
    by (simp add: updateStatus_def execution_update_def execution_findUnique_def io_defs
          fixture_defs)
  have "map_option e_status
     (execution_findUnique (j_executionId fixture_job)
        (snd (createAgentWorker failing_agent ''intake'' fixture_job ?w)))
     = Some FAILED"
    by (subst createAgentWorker_effects(3) [where agent = failing_agent, OF found refl])
       (simp_all add: failing_agent_def fixture_world_def attempt int4_def
          metadata_columns_def)
  moreover have "map_option e_completedAt
     (execution_findUnique (j_executionId fixture_job)
        (snd (createAgentWorker failing_agent ''intake'' fixture_job ?w)))
     = Some None"
    by (subst createAgentWorker_effects(4) [where agent = failing_agent, OF found refl])
       (simp_all add: failing_agent_def fixture_world_def fixture_execution_def attempt
          int4_def metadata_columns_def)
  ultimately show ?thesis
    using sibling by (simp add: fixture_job_def)
qed


end
